theory Spec2Isabelle
  imports Main "HOL-Library.Sublist"
begin

section \<open>JavaScript values the gateway works with\<close>

text \<open>
  The gateway is TypeScript. Strings are modelled as \<open>string\<close>, token counts, timestamps
  and indices as integers. An optional property (\<open>name?: string\<close>) is an \<open>option\<close>;
  JavaScript's truthiness test on such a property holds when the property is present and
  is not the empty string.
\<close>

definition truthy :: "string option \<Rightarrow> bool" where
  "truthy v = (case v of None \<Rightarrow> False | Some s \<Rightarrow> s \<noteq> [])"

text \<open>The line feed of the source's \<open>"\n"\<close>.\<close>

definition LF :: string where
  "LF = [CHR 0x0A]"

text \<open>\<open>Array.prototype.join\<close> on an array of strings.\<close>

fun join :: "string \<Rightarrow> string list \<Rightarrow> string" where
  "join sep [] = []"
| "join sep [x] = x"
| "join sep (x # y # ys) = x @ sep @ join sep (y # ys)"

subsection \<open>JSON values and \<open>JSON.stringify\<close>\<close>

text \<open>
  Request bodies, tool inputs and the objects written to the response are JSON values.
  An object lists its properties in the order \<open>JSON.stringify\<close> prints them in, which
  for the objects the gateway builds is the order they are written in. Numbers are
  integers here.
\<close>

datatype json =
    JNull
  | JBool bool
  | JNum int
  | JStr string
  | JArr "json list"
  | JObj "(string \<times> json) list"

text \<open>The digit for a number below 16, and the decimal numeral of a natural number.\<close>

definition digitChar :: "nat \<Rightarrow> char" where
  "digitChar n = ''0123456789abcdef'' ! n"

fun decimal :: "nat \<Rightarrow> string" where
  "decimal n = (if n < 10 then [digitChar n] else decimal (n div 10) @ [digitChar (n mod 10)])"

definition numberToString :: "int \<Rightarrow> string" where
  "numberToString i = (if i < 0 then CHR ''-'' # decimal (nat (- i)) else decimal (nat i))"

text \<open>The escapes of \<open>JSON.stringify\<close> for one character of a string.\<close>

definition escapeChar :: "char \<Rightarrow> string" where
  "escapeChar c =
     (if c = CHR 0x22 then [CHR 0x5C, CHR 0x22]
      else if c = CHR 0x5C then [CHR 0x5C, CHR 0x5C]
      else if c = CHR 0x08 then [CHR 0x5C, CHR ''b'']
      else if c = CHR 0x0C then [CHR 0x5C, CHR ''f'']
      else if c = CHR 0x0A then [CHR 0x5C, CHR ''n'']
      else if c = CHR 0x0D then [CHR 0x5C, CHR ''r'']
      else if c = CHR 0x09 then [CHR 0x5C, CHR ''t'']
      else if (of_char c :: nat) < 32
        then [CHR 0x5C, CHR ''u'', CHR ''0'', CHR ''0'',
              digitChar (of_char c div 16), digitChar (of_char c mod 16)]
      else [c])"

definition quoteJSONString :: "string \<Rightarrow> string" where
  "quoteJSONString s = CHR 0x22 # concat (map escapeChar s) @ [CHR 0x22]"

fun JSON_stringify :: "json \<Rightarrow> string"
  and stringifyElements :: "json list \<Rightarrow> string list"
  and stringifyMembers :: "(string \<times> json) list \<Rightarrow> string list" where
  "JSON_stringify JNull = ''null''"
| "JSON_stringify (JBool b) = (if b then ''true'' else ''false'')"
| "JSON_stringify (JNum i) = numberToString i"
| "JSON_stringify (JStr s) = quoteJSONString s"
| "JSON_stringify (JArr vs) = ''['' @ join '','' (stringifyElements vs) @ '']''"
| "JSON_stringify (JObj kvs) = ''{'' @ join '','' (stringifyMembers kvs) @ ''}''"
| "stringifyElements [] = []"
| "stringifyElements (v # vs) = JSON_stringify v # stringifyElements vs"
| "stringifyMembers [] = []"
| "stringifyMembers ((k, v) # kvs) =
     (quoteJSONString k @ '':'' @ JSON_stringify v) # stringifyMembers kvs"

text \<open>JavaScript's truthiness of a JSON value, as \<open>v || d\<close> and \<open>!v\<close> test it.\<close>

fun jsTruthy :: "json \<Rightarrow> bool" where
  "jsTruthy JNull = False"
| "jsTruthy (JBool b) = b"
| "jsTruthy (JNum i) = (i \<noteq> 0)"
| "jsTruthy (JStr s) = (s \<noteq> [])"
| "jsTruthy (JArr vs) = True"
| "jsTruthy (JObj kvs) = True"

text \<open>Property access \<open>o.k\<close> and element access \<open>a[i]\<close>; \<open>None\<close> is \<open>undefined\<close>.\<close>

fun getProp :: "string \<Rightarrow> json \<Rightarrow> json option" where
  "getProp k (JObj kvs) = map_of kvs k"
| "getProp k _ = None"

fun getElement :: "nat \<Rightarrow> json \<Rightarrow> json option" where
  "getElement i (JArr vs) = (if i < length vs then Some (vs ! i) else None)"
| "getElement i _ = None"

section \<open>External collaborators\<close>

text \<open>
  The random id source \<open>nanoid(24)\<close> and the clock \<open>Date.now()\<close> are not part of the
  repository. Each is taken as the sequence of values its successive calls return, and
  the code that calls them threads the number of calls made so far.
\<close>

definition generateCompletionId :: "(nat \<Rightarrow> string) \<Rightarrow> nat \<Rightarrow> string \<times> nat" where
  "generateCompletionId nanoid k = (''chatcmpl-'' @ nanoid k, Suc k)"

definition generateToolCallId :: "(nat \<Rightarrow> string) \<Rightarrow> nat \<Rightarrow> string \<times> nat" where
  "generateToolCallId nanoid k = (''call_'' @ nanoid k, Suc k)"

section \<open>Backend messages to OpenAI objects (claude-to-openai)\<close>

record ClaudeContentBlock =
  block_type :: string
  block_text :: "string option"
  block_name :: "string option"
  block_input :: "json option"
  block_id :: "string option"

record ClaudeInnerMessage =
  inner_role :: string
  inner_content :: "ClaudeContentBlock list"

record ClaudeUsage =
  input_tokens :: "int option"
  output_tokens :: "int option"

text \<open>
  \<open>ClaudeMessage\<close>; the fields \<open>duration_ms\<close> and \<open>total_cost_usd\<close> are only ever
  logged and are left out.
\<close>

record ClaudeMessage =
  msg_type :: string
  msg_subtype :: "string option"
  msg_message :: "ClaudeInnerMessage option"
  msg_result :: "string option"
  msg_usage :: "ClaudeUsage option"

record ToolFunction =
  fn_name :: string
  fn_arguments :: string

record OpenAIToolCall =
  tc_id :: string
  tc_type :: string
  tc_function :: ToolFunction

record OpenAIUsage =
  prompt_tokens :: int
  completion_tokens :: int
  total_tokens :: int

record ConvertedContent =
  textContent :: string
  toolCalls :: "OpenAIToolCall list"

text \<open>
  One turn of the loop of \<open>extractContent\<close> over the content blocks. The state is the
  two arrays being filled and the number of \<open>nanoid\<close> calls made so far. The input is
  declared an object; \<open>block.input || {}\<close> also replaces a present input that is falsy.
\<close>

definition extractBlock ::
  "(nat \<Rightarrow> string) \<Rightarrow> string list \<times> OpenAIToolCall list \<times> nat \<Rightarrow> ClaudeContentBlock
     \<Rightarrow> string list \<times> OpenAIToolCall list \<times> nat" where
  "extractBlock nanoid acc block =
     (case acc of (textParts, calls, k) \<Rightarrow>
        if block_type block = ''text'' \<and> truthy (block_text block)
          then (textParts @ [the (block_text block)], calls, k)
        else if block_type block = ''tool_use'' \<and> truthy (block_name block)
          then (case (if truthy (block_id block) then (the (block_id block), k)
                      else generateToolCallId nanoid k) of
                  (i, k') \<Rightarrow>
                    (textParts,
                     calls @ [\<lparr>tc_id = i, tc_type = ''function'',
                               tc_function = \<lparr>fn_name = the (block_name block),
                                 fn_arguments = JSON_stringify
                                   (case block_input block of
                                      None \<Rightarrow> JObj []
                                    | Some v \<Rightarrow> if jsTruthy v then v else JObj [])\<rparr>\<rparr>],
                     k'))
        else (textParts, calls, k))"

definition extractContent ::
  "(nat \<Rightarrow> string) \<Rightarrow> ClaudeMessage \<Rightarrow> nat \<Rightarrow> ConvertedContent \<times> nat" where
  "extractContent nanoid message k =
     (case msg_message message of
        None \<Rightarrow> (\<lparr>textContent = [], toolCalls = []\<rparr>, k)
      | Some m \<Rightarrow>
          (case foldl (extractBlock nanoid) ([], [], k) (inner_content m) of
             (textParts, calls, k') \<Rightarrow>
               (\<lparr>textContent = join LF textParts, toolCalls = calls\<rparr>, k')))"

definition extractUsage :: "ClaudeMessage \<Rightarrow> OpenAIUsage" where
  "extractUsage message =
     (let inputTokens = (case msg_usage message of None \<Rightarrow> 0
                          | Some u \<Rightarrow> (case input_tokens u of None \<Rightarrow> 0 | Some n \<Rightarrow> n));
          outputTokens = (case msg_usage message of None \<Rightarrow> 0
                          | Some u \<Rightarrow> (case output_tokens u of None \<Rightarrow> 0 | Some n \<Rightarrow> n))
      in \<lparr>prompt_tokens = inputTokens, completion_tokens = outputTokens,
          total_tokens = inputTokens + outputTokens\<rparr>)"

text \<open>
  The builders read the clock once each (\<open>Math.floor(Date.now() / 1000)\<close>); the reading
  \<open>t\<close>, in milliseconds, is their first argument. Each returns the object literal of the
  source, properties in the order written.
\<close>

definition toolCallObject :: "OpenAIToolCall \<Rightarrow> json" where
  "toolCallObject tc =
     JObj [(''id'', JStr (tc_id tc)), (''type'', JStr (tc_type tc)),
           (''function'', JObj [(''name'', JStr (fn_name (tc_function tc))),
                                (''arguments'', JStr (fn_arguments (tc_function tc)))])]"

definition usageObject :: "OpenAIUsage \<Rightarrow> json" where
  "usageObject u =
     JObj [(''prompt_tokens'', JNum (prompt_tokens u)),
           (''completion_tokens'', JNum (completion_tokens u)),
           (''total_tokens'', JNum (total_tokens u))]"

definition buildChatCompletion ::
  "int \<Rightarrow> string \<Rightarrow> string \<Rightarrow> string option \<Rightarrow> OpenAIToolCall list \<Rightarrow> OpenAIUsage \<Rightarrow> json" where
  "buildChatCompletion t completionId model content calls usage =
     (let message =
            [(''role'', JStr ''assistant''),
             (''content'', (case content of None \<Rightarrow> JNull | Some s \<Rightarrow> JStr s))]
            @ (if length calls > 0 then [(''tool_calls'', JArr (map toolCallObject calls))] else [])
      in JObj [(''id'', JStr completionId),
               (''object'', JStr ''chat.completion''),
               (''created'', JNum (t div 1000)),
               (''model'', JStr model),
               (''choices'',
                  JArr [JObj [(''index'', JNum 0),
                              (''message'', JObj message),
                              (''finish_reason'',
                                 JStr (if length calls > 0 then ''tool_calls'' else ''stop''))]]),
               (''usage'', usageObject usage)])"

definition buildInitialChunk :: "int \<Rightarrow> string \<Rightarrow> string \<Rightarrow> json" where
  "buildInitialChunk t completionId model =
     JObj [(''id'', JStr completionId),
           (''object'', JStr ''chat.completion.chunk''),
           (''created'', JNum (t div 1000)),
           (''model'', JStr model),
           (''choices'',
              JArr [JObj [(''index'', JNum 0),
                          (''delta'', JObj [(''role'', JStr ''assistant'')]),
                          (''finish_reason'', JNull)]])]"

definition buildContentChunk :: "int \<Rightarrow> string \<Rightarrow> string \<Rightarrow> string \<Rightarrow> json" where
  "buildContentChunk t completionId model content =
     JObj [(''id'', JStr completionId),
           (''object'', JStr ''chat.completion.chunk''),
           (''created'', JNum (t div 1000)),
           (''model'', JStr model),
           (''choices'',
              JArr [JObj [(''index'', JNum 0),
                          (''delta'', JObj [(''content'', JStr content)]),
                          (''finish_reason'', JNull)]])]"

definition buildToolCallChunk ::
  "int \<Rightarrow> string \<Rightarrow> string \<Rightarrow> OpenAIToolCall list \<Rightarrow> bool \<Rightarrow> json" where
  "buildToolCallChunk t completionId model calls isInitial =
     (let delta =
            JObj [(''tool_calls'',
                   JArr (map (\<lambda>(index, tc).
                           JObj ((''index'', JNum (int index)) #
                                 (if isInitial
                                  then [(''id'', JStr (tc_id tc)),
                                        (''type'', JStr ''function''),
                                        (''function'',
                                           JObj [(''name'', JStr (fn_name (tc_function tc))),
                                                 (''arguments'',
                                                    JStr (fn_arguments (tc_function tc)))])]
                                  else [(''function'',
                                           JObj [(''arguments'',
                                                    JStr (fn_arguments (tc_function tc)))])])))
                         (enumerate 0 calls)))]
      in JObj [(''id'', JStr completionId),
               (''object'', JStr ''chat.completion.chunk''),
               (''created'', JNum (t div 1000)),
               (''model'', JStr model),
               (''choices'',
                  JArr [JObj [(''index'', JNum 0),
                              (''delta'', delta),
                              (''finish_reason'', JNull)]])])"

definition buildFinalChunk :: "int \<Rightarrow> string \<Rightarrow> string \<Rightarrow> bool \<Rightarrow> json" where
  "buildFinalChunk t completionId model hasToolCalls =
     JObj [(''id'', JStr completionId),
           (''object'', JStr ''chat.completion.chunk''),
           (''created'', JNum (t div 1000)),
           (''model'', JStr model),
           (''choices'',
              JArr [JObj [(''index'', JNum 0),
                          (''delta'', JObj []),
                          (''finish_reason'',
                             JStr (if hasToolCalls then ''tool_calls'' else ''stop''))]])]"

section \<open>Server-sent events (services/streaming)\<close>

text \<open>
  The HTTP response as the handlers drive it: the headers set, whether they were flushed,
  the strings passed to \<open>res.write\<close> in order, and whether \<open>res.end()\<close> was called.
\<close>

record Response =
  headers :: "(string \<times> string) list"
  headersFlushed :: bool
  written :: "string list"
  ended :: bool

definition newResponse :: Response where
  "newResponse = \<lparr>headers = [], headersFlushed = False, written = [], ended = False\<rparr>"

definition setHeader :: "Response \<Rightarrow> string \<Rightarrow> string \<Rightarrow> Response" where
  "setHeader res k v = res\<lparr>headers := headers res @ [(k, v)]\<rparr>"

definition res_write :: "Response \<Rightarrow> string \<Rightarrow> Response" where
  "res_write res s = res\<lparr>written := written res @ [s]\<rparr>"

definition res_end :: "Response \<Rightarrow> Response" where
  "res_end res = res\<lparr>ended := True\<rparr>"

definition setupSSE :: "Response \<Rightarrow> Response" where
  "setupSSE res =
     (setHeader (setHeader (setHeader (setHeader res
        ''Content-Type'' ''text/event-stream'')
        ''Cache-Control'' ''no-cache'')
        ''Connection'' ''keep-alive'')
        ''X-Accel-Buffering'' ''no'')\<lparr>headersFlushed := True\<rparr>"

definition sendChunk :: "Response \<Rightarrow> json \<Rightarrow> Response" where
  "sendChunk res chunk = res_write res (''data: '' @ JSON_stringify chunk @ LF @ LF)"

definition sendDone :: "Response \<Rightarrow> Response" where
  "sendDone res = res_write res (''data: [DONE]'' @ LF @ LF)"

definition sendError :: "Response \<Rightarrow> string \<Rightarrow> Response" where
  "sendError res message =
     (let errorChunk =
            JObj [(''error'',
                   JObj [(''message'', JStr message),
                         (''type'', JStr ''internal_error''),
                         (''param'', JNull),
                         (''code'', JStr ''stream_error'')])]
      in res_write res (''data: '' @ JSON_stringify errorChunk @ LF @ LF))"

section \<open>Errors (middleware/error-handler)\<close>

text \<open>
  What a \<open>throw\<close> can carry: a plain \<open>Error\<close> with its message, an \<open>APIError\<close> with
  status code, code and message (its subclasses only fix the first two), the
  \<open>SyntaxError\<close> of the body parser, or a value that is not an \<open>Error\<close> at all:
  \<open>undefined\<close> (\<open>None\<close>) or another value.
\<close>

datatype thrown =
    JsError string
  | APIError nat string string
  | BodySyntaxError string
  | NonError "json option"

definition ValidationError :: "string \<Rightarrow> thrown" where
  "ValidationError message = APIError 400 ''invalid_request_error'' message"

definition AuthenticationError :: "string \<Rightarrow> thrown" where
  "AuthenticationError message = APIError 401 ''invalid_api_key'' message"

definition ClaudeAgentError :: "string \<Rightarrow> thrown" where
  "ClaudeAgentError message = APIError 500 ''internal_error'' message"

fun instanceofError :: "thrown \<Rightarrow> bool" where
  "instanceofError (NonError v) = False"
| "instanceofError _ = True"

fun errorMessage :: "thrown \<Rightarrow> string" where
  "errorMessage (JsError m) = m"
| "errorMessage (APIError status code m) = m"
| "errorMessage (BodySyntaxError m) = m"
| "errorMessage (NonError v) = []"

text \<open>\<open>errorHandler\<close>: the status and the JSON body it sends.\<close>

fun errorHandler :: "thrown \<Rightarrow> nat \<times> json" where
  "errorHandler (APIError statusCode code message) =
     (statusCode,
      JObj [(''error'', JObj [(''message'', JStr message), (''type'', JStr code),
                              (''param'', JNull), (''code'', JStr code)])])"
| "errorHandler (BodySyntaxError message) =
     (400,
      JObj [(''error'', JObj [(''message'', JStr ''Invalid JSON in request body''),
                              (''type'', JStr ''invalid_request_error''),
                              (''param'', JNull), (''code'', JStr ''invalid_json'')])])"
| "errorHandler _ =
     (500,
      JObj [(''error'', JObj [(''message'', JStr ''An internal error occurred''),
                              (''type'', JStr ''internal_error''),
                              (''param'', JNull), (''code'', JStr ''internal_error'')])])"

section \<open>The agent backend (services/claude-agent)\<close>

record Config =
  port :: int
  apiSecret :: string
  workingDir :: string
  allowedTools :: "string list"
  permissionMode :: string
  maxTurns :: int
  noToolExecution :: bool

text \<open>
  The value the route passes on as SDK model. It is declared a string; the route takes it
  from an object by property access, and for a name that every object inherits (such as
  \<open>toString\<close>) that access gives the inherited property, a function or an object,
  which is truthy and is passed on as it is.
\<close>

datatype SdkModel =
    ModelName string
  | InheritedProperty string

fun modelTruthy :: "SdkModel \<Rightarrow> bool" where
  "modelTruthy (ModelName s) = (s \<noteq> [])"
| "modelTruthy (InheritedProperty n) = True"

record AgentOptions =
  opt_prompt :: string
  opt_systemPrompt :: "string option"
  opt_model :: "SdkModel option"
  opt_noToolExecution :: "bool option"

record ToolDecision =
  behavior :: string
  decision_message :: string

text \<open>
  The options object handed to the SDK. \<open>canUseTool\<close> is a callback in the source; the one
  the gateway installs returns the same decision for every tool, and that decision stands
  for it here.
\<close>

record QueryOptions =
  q_allowedTools :: "string list"
  q_permissionMode :: string
  q_maxTurns :: int
  q_cwd :: string
  q_systemPrompt :: "string option"
  q_model :: "SdkModel option"
  q_canUseTool :: "ToolDecision option"

text \<open>
  One run of the backend: the messages its iterator yields, in order, and then either the
  normal end of the iteration (\<open>None\<close>) or the value it throws.
\<close>

type_synonym BackendRun = "ClaudeMessage list \<times> thrown option"

text \<open>
  What a request handler is given from outside the repository: the values of successive
  \<open>nanoid\<close> calls, the readings of successive \<open>Date.now()\<close> calls, the SDK's \<open>query\<close>,
  and the configuration loaded at start-up.
\<close>

record Env =
  nanoid :: "nat \<Rightarrow> string"
  dateNow :: "nat \<Rightarrow> int"
  sdkQuery :: "string \<Rightarrow> QueryOptions \<Rightarrow> BackendRun"
  config :: Config

definition mapPermissionMode :: "string \<Rightarrow> string" where
  "mapPermissionMode mode =
     (if mode = ''acceptEdits'' then ''acceptEdits''
      else if mode = ''bypassPermissions'' then ''bypassPermissions''
      else if mode = ''plan'' then ''plan''
      else ''default'')"

text \<open>
  \<open>queryClaudeAgent\<close> builds the options, calls the SDK with the prompt as given, yields
  every message unchanged and rethrows what the SDK throws.
\<close>

definition queryClaudeAgent :: "Env \<Rightarrow> AgentOptions \<Rightarrow> BackendRun" where
  "queryClaudeAgent env options =
     (let noExec = (opt_noToolExecution options = Some True);
          queryOptions =
            \<lparr>q_allowedTools = allowedTools (config env),
             q_permissionMode = mapPermissionMode (permissionMode (config env)),
             q_maxTurns = (if noExec then 1 else maxTurns (config env)),
             q_cwd = workingDir (config env),
             q_systemPrompt =
               (if truthy (opt_systemPrompt options) then opt_systemPrompt options else None),
             q_model = (case opt_model options of
                          None \<Rightarrow> None
                        | Some m \<Rightarrow> if modelTruthy m then Some m else None),
             q_canUseTool =
               (if noExec
                then Some \<lparr>behavior = ''deny'',
                       decision_message =
                         ''Tool execution disabled - returning tool call to client''\<rparr>
                else None)\<rparr>
      in sdkQuery env (opt_prompt options) queryOptions)"

definition isAssistantMessage :: "ClaudeMessage \<Rightarrow> bool" where
  "isAssistantMessage message = (msg_type message = ''assistant'' \<and> msg_message message \<noteq> None)"

definition isResultMessage :: "ClaudeMessage \<Rightarrow> bool" where
  "isResultMessage message = (msg_type message = ''result'')"

definition isSystemInitMessage :: "ClaudeMessage \<Rightarrow> bool" where
  "isSystemInitMessage message =
     (msg_type message = ''system'' \<and> msg_subtype message = Some ''init'')"

section \<open>The request handlers (routes/chat-completions)\<close>

record ClaudePrompt =
  prompt :: string
  systemPrompt :: "string option"

subsection \<open>Streaming\<close>

record StreamState =
  res :: Response
  hasToolCalls :: bool
  sentToolCallIds :: "string set"
  s_nanoidCalls :: nat
  s_clockReads :: nat

text \<open>The body of the \<open>for await\<close> loop of \<open>handleStreamingRequest\<close>, for one message.\<close>

definition streamMessage :: "Env \<Rightarrow> string \<Rightarrow> string \<Rightarrow> StreamState \<Rightarrow> ClaudeMessage \<Rightarrow> StreamState" where
  "streamMessage env completionId responseModel st message =
     (if isAssistantMessage message then
        (case extractContent (nanoid env) message (s_nanoidCalls st) of
           (extracted, k) \<Rightarrow>
             let st1 = st\<lparr>s_nanoidCalls := k\<rparr>;
                 st2 = (if textContent extracted \<noteq> []
                        then st1\<lparr>res := sendChunk (res st1)
                                     (buildContentChunk (dateNow env (s_clockReads st1))
                                        completionId responseModel (textContent extracted)),
                                 s_clockReads := Suc (s_clockReads st1)\<rparr>
                        else st1)
             in if length (toolCalls extracted) > 0 then
                  (let st3 = st2\<lparr>hasToolCalls := True\<rparr>;
                       newToolCalls =
                         filter (\<lambda>tc. tc_id tc \<notin> sentToolCallIds st3) (toolCalls extracted)
                   in if length newToolCalls > 0
                      then st3\<lparr>res := sendChunk (res st3)
                                   (buildToolCallChunk (dateNow env (s_clockReads st3))
                                      completionId responseModel newToolCalls True),
                               s_clockReads := Suc (s_clockReads st3),
                               sentToolCallIds :=
                                 sentToolCallIds st3 \<union> set (map tc_id newToolCalls)\<rparr>
                      else st3)
                else st2)
      else st)"

text \<open>
  \<open>handleStreamingRequest\<close>. The completion id takes the first \<open>nanoid\<close> value and the
  initial chunk the first clock reading. The \<open>try\<close> block consumes the run; its normal end
  sends the final chunk and the terminator, a throw goes to the \<open>catch\<close> block, and
  \<open>finally\<close> ends the response.
\<close>

definition handleStreamingRequest ::
  "Env \<Rightarrow> Response \<Rightarrow> ClaudePrompt \<Rightarrow> string \<Rightarrow> SdkModel \<Rightarrow> Response" where
  "handleStreamingRequest env res0 claudePrompt responseModel sdkModel =
     (case generateCompletionId (nanoid env) 0 of
        (completionId, k0) \<Rightarrow>
          let res1 = setupSSE res0;
              res2 = sendChunk res1 (buildInitialChunk (dateNow env 0) completionId responseModel);
              st0 = \<lparr>res = res2, hasToolCalls = False, sentToolCallIds = {},
                     s_nanoidCalls = k0, s_clockReads = 1\<rparr>
          in (case queryClaudeAgent env
                     \<lparr>opt_prompt = prompt claudePrompt,
                      opt_systemPrompt = systemPrompt claudePrompt,
                      opt_model = Some sdkModel,
                      opt_noToolExecution = Some (noToolExecution (config env))\<rparr> of
                (messages, failure) \<Rightarrow>
                  let st = foldl (streamMessage env completionId responseModel) st0 messages
                  in res_end
                       (case failure of
                          None \<Rightarrow>
                            sendDone (sendChunk (res st)
                              (buildFinalChunk (dateNow env (s_clockReads st))
                                 completionId responseModel (hasToolCalls st)))
                        | Some error \<Rightarrow>
                            sendDone (sendError (res st)
                              (if instanceofError error then errorMessage error
                               else ''Stream error'')))))"

subsection \<open>Non-streaming\<close>

record CollectState =
  collectedContent :: "string list"
  collectedToolCalls :: "OpenAIToolCall list"
  usage :: OpenAIUsage
  seenToolCallIds :: "string set"
  c_nanoidCalls :: nat

text \<open>The inner loop that drops tool calls whose id was already seen.\<close>

definition collectToolCall :: "CollectState \<Rightarrow> OpenAIToolCall \<Rightarrow> CollectState" where
  "collectToolCall st tc =
     (if tc_id tc \<notin> seenToolCallIds st
      then st\<lparr>collectedToolCalls := collectedToolCalls st @ [tc],
              seenToolCallIds := insert (tc_id tc) (seenToolCallIds st)\<rparr>
      else st)"

text \<open>The body of the \<open>for await\<close> loop of \<open>handleNonStreamingRequest\<close>, for one message.\<close>

definition collectMessage :: "Env \<Rightarrow> CollectState \<Rightarrow> ClaudeMessage \<Rightarrow> CollectState" where
  "collectMessage env st message =
     (let st1 =
            (if isAssistantMessage message then
               (case extractContent (nanoid env) message (c_nanoidCalls st) of
                  (extracted, k) \<Rightarrow>
                    let st' = st\<lparr>c_nanoidCalls := k\<rparr>;
                        st'' = (if textContent extracted \<noteq> []
                                then st'\<lparr>collectedContent :=
                                           collectedContent st' @ [textContent extracted]\<rparr>
                                else st')
                    in foldl collectToolCall st'' (toolCalls extracted))
             else st)
      in if isResultMessage message then st1\<lparr>usage := extractUsage message\<rparr> else st1)"

text \<open>
  \<open>handleNonStreamingRequest\<close>: \<open>Inr\<close> is the completion passed to \<open>res.json\<close>, \<open>Inl\<close> the
  error the \<open>catch\<close> block rethrows to the route.
\<close>

definition handleNonStreamingRequest ::
  "Env \<Rightarrow> ClaudePrompt \<Rightarrow> string \<Rightarrow> SdkModel \<Rightarrow> thrown + json" where
  "handleNonStreamingRequest env claudePrompt responseModel sdkModel =
     (case generateCompletionId (nanoid env) 0 of
        (completionId, k0) \<Rightarrow>
          let st0 = \<lparr>collectedContent = [], collectedToolCalls = [],
                     usage = \<lparr>prompt_tokens = 0, completion_tokens = 0, total_tokens = 0\<rparr>,
                     seenToolCallIds = {}, c_nanoidCalls = k0\<rparr>
          in (case queryClaudeAgent env
                     \<lparr>opt_prompt = prompt claudePrompt,
                      opt_systemPrompt = systemPrompt claudePrompt,
                      opt_model = Some sdkModel,
                      opt_noToolExecution = Some (noToolExecution (config env))\<rparr> of
                (messages, failure) \<Rightarrow>
                  let st = foldl (collectMessage env) st0 messages
                  in (case failure of
                        Some error \<Rightarrow> Inl error
                      | None \<Rightarrow>
                          let content = (if length (collectedContent st) > 0
                                         then Some (join (LF @ LF) (collectedContent st))
                                         else None)
                          in Inr (buildChatCompletion (dateNow env 0) completionId responseModel
                                    content (collectedToolCalls st) (usage st)))))"

section \<open>OpenAI messages to one prompt (openai-to-claude)\<close>

record ImageUrl =
  url :: string
  detail :: "string option"

record OpenAIContentPart =
  part_type :: string
  part_text :: "string option"
  part_image_url :: "ImageUrl option"

text \<open>\<open>content: string | OpenAIContentPart[] | null\<close>\<close>

datatype MessageContent =
    ContentNull
  | ContentString string
  | ContentParts "OpenAIContentPart list"

record OpenAIMessage =
  role :: string
  content :: MessageContent
  name :: "string option"
  tool_calls :: "OpenAIToolCall list option"
  tool_call_id :: "string option"

text \<open>
  \<open>OpenAIChatRequest\<close>. The route reads \<open>model\<close> with a default, so a request without
  one is admitted; \<open>temperature\<close>, \<open>max_tokens\<close>, \<open>tools\<close> and \<open>tool_choice\<close> are never
  read and are left out.
\<close>

record OpenAIChatRequest =
  model :: "string option"
  messages :: "OpenAIMessage list"
  stream :: "bool option"

definition getTextContent :: "MessageContent \<Rightarrow> string" where
  "getTextContent c =
     (case c of
        ContentNull \<Rightarrow> []
      | ContentString s \<Rightarrow> s
      | ContentParts parts \<Rightarrow>
          join LF (map (\<lambda>part. the (part_text part))
                     (filter (\<lambda>part. part_type part = ''text'' \<and> part_text part \<noteq> None) parts)))"

text \<open>\<open>toUpperCase\<close> on one character, for the letters of ASCII.\<close>

definition toUpperCaseChar :: "char \<Rightarrow> char" where
  "toUpperCaseChar c =
     (case map_of (zip ''abcdefghijklmnopqrstuvwxyz'' ''ABCDEFGHIJKLMNOPQRSTUVWXYZ'') c of
        Some u \<Rightarrow> u
      | None \<Rightarrow> c)"

definition getRoleLabel :: "string \<Rightarrow> string" where
  "getRoleLabel r =
     (if r = ''user'' then ''User''
      else if r = ''assistant'' then ''Assistant''
      else if r = ''tool'' then ''Tool''
      else map toUpperCaseChar (take 1 r) @ drop 1 r)"

text \<open>
  The loop of \<open>findLastIndex\<close> runs \<open>i\<close> from \<open>length - 1\<close> down to \<open>0\<close>; the third argument
  of \<open>findLastIndexFrom\<close> is \<open>i + 1\<close>.
\<close>

fun findLastIndexFrom :: "'a list \<Rightarrow> ('a \<Rightarrow> bool) \<Rightarrow> nat \<Rightarrow> int" where
  "findLastIndexFrom arr predicate 0 = - 1"
| "findLastIndexFrom arr predicate (Suc i) =
     (if predicate (arr ! i) then int i else findLastIndexFrom arr predicate i)"

definition findLastIndex :: "'a list \<Rightarrow> ('a \<Rightarrow> bool) \<Rightarrow> int" where
  "findLastIndex arr predicate = findLastIndexFrom arr predicate (length arr)"

definition formatMessage :: "OpenAIMessage \<Rightarrow> string" where
  "formatMessage message =
     (let roleLabel = getRoleLabel (role message);
          content0 = getTextContent (content message);
          content1 =
            (case tool_calls message of
               None \<Rightarrow> content0
             | Some tcs \<Rightarrow>
                 if length tcs > 0 then
                   (let toolCallsStr =
                          join LF (map (\<lambda>tc. ''[Tool Call: '' @ fn_name (tc_function tc) @ ''(''
                                              @ fn_arguments (tc_function tc) @ '')]'') tcs)
                    in if content0 \<noteq> [] then content0 @ LF @ toolCallsStr else toolCallsStr)
                 else content0)
      in if role message = ''tool'' \<and> truthy (tool_call_id message)
         then ''Tool Result ('' @ the (tool_call_id message) @ ''): '' @ content1
         else roleLabel @ '': '' @ content1)"

definition formatConversation :: "OpenAIMessage list \<Rightarrow> string" where
  "formatConversation msgs =
     (if length msgs = 0 then []
      else if length msgs = 1 then getTextContent (content (msgs ! 0))
      else
        (let lastUserIndex = findLastIndex msgs (\<lambda>m. role m = ''user'')
         in if lastUserIndex = - 1 then join (LF @ LF) (map formatMessage msgs)
            else
              (let history = take (nat lastUserIndex) msgs;
                   currentRequest = msgs ! nat lastUserIndex;
                   afterCurrent = drop (nat lastUserIndex + 1) msgs;
                   parts0 = [];
                   parts1 = (if length history > 0
                             then parts0 @ [''Previous conversation:'',
                                            join (LF @ LF) (map formatMessage history), []]
                             else parts0);
                   parts2 = (if length afterCurrent > 0
                             then parts1 @ [join (LF @ LF) (map formatMessage afterCurrent), []]
                             else parts1);
                   parts3 = parts2 @ [''Current request:'',
                                      getTextContent (content currentRequest)]
               in join LF parts3)))"

text \<open>
  One turn of the loop of \<open>convertOpenAIToClaude\<close> that separates the system messages:
  the state is \<open>systemPrompt\<close> and \<open>conversationMessages\<close>.
\<close>

definition splitMessage ::
  "string option \<times> OpenAIMessage list \<Rightarrow> OpenAIMessage \<Rightarrow> string option \<times> OpenAIMessage list" where
  "splitMessage acc message =
     (case acc of (sys, conversationMessages) \<Rightarrow>
        if role message = ''system'' then
          (let c = getTextContent (content message)
           in (Some (if truthy sys then the sys @ LF @ LF @ c else c), conversationMessages))
        else (sys, conversationMessages @ [message]))"

text \<open>
  \<open>convertOpenAIToClaude\<close>; \<open>Inl\<close> is what it throws. The type gives \<open>messages\<close> as an
  array, so of the test \<open>!messages || messages.length === 0\<close> the second half decides.
\<close>

definition convertOpenAIToClaude :: "OpenAIChatRequest \<Rightarrow> thrown + ClaudePrompt" where
  "convertOpenAIToClaude request =
     (if length (messages request) = 0
      then Inl (JsError ''Messages array is required and cannot be empty'')
      else
        (case foldl splitMessage (None, []) (messages request) of
           (sys, conversationMessages) \<Rightarrow>
             if length conversationMessages = 1 \<and> role (conversationMessages ! 0) = ''user''
             then Inr \<lparr>prompt = getTextContent (content (conversationMessages ! 0)),
                       systemPrompt = sys\<rparr>
             else Inr \<lparr>prompt = formatConversation conversationMessages,
                       systemPrompt = sys\<rparr>))"

section \<open>The route (routes/chat-completions, routes/models)\<close>

text \<open>
  \<open>validateRequest\<close> takes the parsed body, of type \<open>unknown\<close>: any JSON value, or
  \<open>undefined\<close> (\<open>None\<close>). Objects and arrays are the values that are truthy and of type
  \<open>"object"\<close>.
\<close>

fun isObjectLike :: "json option \<Rightarrow> bool" where
  "isObjectLike (Some (JObj kvs)) = True"
| "isObjectLike (Some (JArr vs)) = True"
| "isObjectLike _ = False"

definition validRoles :: "string list" where
  "validRoles = [''system'', ''user'', ''assistant'', ''tool'']"

fun roleAccepted :: "json option \<Rightarrow> bool" where
  "roleAccepted (Some (JStr r)) = (r \<in> set validRoles)"
| "roleAccepted _ = False"

fun contentAccepted :: "json option \<Rightarrow> bool" where
  "contentAccepted (Some JNull) = True"
| "contentAccepted (Some (JStr s)) = True"
| "contentAccepted (Some (JArr vs)) = True"
| "contentAccepted _ = False"

text \<open>
  The loop over \<open>messages\<close>, from index \<open>i\<close> on: the first error thrown, or \<open>None\<close> when
  every message passes.
\<close>

fun validateMessages :: "nat \<Rightarrow> json list \<Rightarrow> thrown option" where
  "validateMessages i [] = None"
| "validateMessages i (msg # rest) =
     (if \<not> isObjectLike (Some msg)
        then Some (ValidationError
                     (''messages['' @ numberToString (int i) @ ''] must be an object''))
      else if \<not> roleAccepted (getProp ''role'' msg)
        then Some (ValidationError
                     (''messages['' @ numberToString (int i)
                      @ ''].role must be one of: system, user, assistant, tool''))
      else if \<not> contentAccepted (getProp ''content'' msg)
        then Some (ValidationError
                     (''messages['' @ numberToString (int i)
                      @ ''].content must be a string, array, or null''))
      else validateMessages (Suc i) rest)"

definition validateRequest :: "json option \<Rightarrow> thrown + json" where
  "validateRequest body =
     (if \<not> isObjectLike body then Inl (ValidationError ''Request body must be an object'')
      else
        (case getProp ''messages'' (the body) of
           Some (JArr msgs) \<Rightarrow>
             if length msgs = 0 then Inl (ValidationError ''messages array cannot be empty'')
             else (case validateMessages 0 msgs of
                     Some error \<Rightarrow> Inl error
                   | None \<Rightarrow> Inr (the body))
         | _ \<Rightarrow> Inl (ValidationError ''messages must be an array'')))"

text \<open>
  A request of the declared type \<open>OpenAIChatRequest\<close> as the JSON object the body parser
  delivers: an optional property is present exactly when it has a value.
\<close>

definition optional :: "string \<Rightarrow> 'a option \<Rightarrow> ('a \<Rightarrow> json) \<Rightarrow> (string \<times> json) list" where
  "optional k v f = (case v of None \<Rightarrow> [] | Some x \<Rightarrow> [(k, f x)])"

definition partObject :: "OpenAIContentPart \<Rightarrow> json" where
  "partObject p =
     JObj ([(''type'', JStr (part_type p))]
           @ optional ''text'' (part_text p) JStr
           @ optional ''image_url'' (part_image_url p)
               (\<lambda>i. JObj ([(''url'', JStr (url i))] @ optional ''detail'' (detail i) JStr)))"

definition contentValue :: "MessageContent \<Rightarrow> json" where
  "contentValue c =
     (case c of
        ContentNull \<Rightarrow> JNull
      | ContentString s \<Rightarrow> JStr s
      | ContentParts parts \<Rightarrow> JArr (map partObject parts))"

definition messageObject :: "OpenAIMessage \<Rightarrow> json" where
  "messageObject m =
     JObj ([(''role'', JStr (role m)), (''content'', contentValue (content m))]
           @ optional ''name'' (name m) JStr
           @ optional ''tool_calls'' (tool_calls m) (\<lambda>tcs. JArr (map toolCallObject tcs))
           @ optional ''tool_call_id'' (tool_call_id m) JStr)"

definition requestObject :: "OpenAIChatRequest \<Rightarrow> json" where
  "requestObject r =
     JObj (optional ''model'' (model r) JStr
           @ [(''messages'', JArr (map messageObject (messages r)))]
           @ optional ''stream'' (stream r) JBool)"

definition MODEL_MAP :: "(string \<times> string) list" where
  "MODEL_MAP =
     [(''claude-opus-4-5'', ''opus''),
      (''claude-sonnet-4-5'', ''sonnet''),
      (''claude-haiku-4-5'', ''haiku''),
      (''opus'', ''opus''),
      (''sonnet'', ''sonnet''),
      (''haiku'', ''haiku''),
      (''claude-opus'', ''opus''),
      (''claude-sonnet'', ''sonnet''),
      (''claude-haiku'', ''haiku'')]"

text \<open>
  The names every object literal inherits from \<open>Object.prototype\<close>, and the property
  access \<open>MODEL_MAP[name]\<close>: an own property, an inherited one, or \<open>undefined\<close>.
\<close>

definition objectPrototypeNames :: "string list" where
  "objectPrototypeNames =
     [''constructor'', ''__proto__'', ''hasOwnProperty'', ''isPrototypeOf'',
      ''propertyIsEnumerable'', ''toLocaleString'', ''toString'', ''valueOf'',
      ''__defineGetter__'', ''__defineSetter__'', ''__lookupGetter__'',
      ''__lookupSetter__'']"

definition lookupModel :: "string \<Rightarrow> SdkModel option" where
  "lookupModel n =
     (case map_of MODEL_MAP n of
        Some m \<Rightarrow> Some (ModelName m)
      | None \<Rightarrow> if n \<in> set objectPrototypeNames then Some (InheritedProperty n) else None)"

text \<open>
  What the client receives: a status with a JSON body (\<open>res.json\<close>, or the error handler
  reached through \<open>next(error)\<close>), the event stream, or the answer Express gives by
  itself, with status 404, when no route and no error handler takes the request.
\<close>

datatype HttpResult =
    JsonResult nat json
  | StreamResult Response
  | DefaultNotFound

text \<open>
  \<open>next(error)\<close>. Express takes a falsy argument, and the strings \<open>route\<close> and
  \<open>router\<close>, as no error and goes on to the later routes, none of which takes the
  request; anything else goes to \<open>errorHandler\<close>.
\<close>

fun passedAsNoError :: "thrown \<Rightarrow> bool" where
  "passedAsNoError (NonError None) = True"
| "passedAsNoError (NonError (Some v)) =
     (\<not> jsTruthy v \<or> v = JStr ''route'' \<or> v = JStr ''router'')"
| "passedAsNoError _ = False"

definition nextError :: "thrown \<Rightarrow> HttpResult" where
  "nextError error =
     (if passedAsNoError error then DefaultNotFound
      else (case errorHandler error of (status, body) \<Rightarrow> JsonResult status body))"

text \<open>
  The handler of \<open>POST /chat/completions\<close>, for a body of the declared type: validation
  runs on the JSON body, the conversion and the handlers on the typed request.
\<close>

definition chatCompletions :: "Env \<Rightarrow> OpenAIChatRequest \<Rightarrow> HttpResult" where
  "chatCompletions env request =
     (case validateRequest (Some (requestObject request)) of
        Inl error \<Rightarrow> nextError error
      | Inr body \<Rightarrow>
          (case convertOpenAIToClaude request of
             Inl error \<Rightarrow> nextError error
           | Inr claudePrompt \<Rightarrow>
               let requestedModel =
                     (if truthy (model request) then the (model request)
                      else ''claude-sonnet-4-5'');
                   sdkModel = (case lookupModel requestedModel of
                                 None \<Rightarrow> ModelName ''sonnet''
                               | Some m \<Rightarrow> if modelTruthy m then m
                                          else ModelName ''sonnet'')
               in if stream request = Some True
                  then StreamResult
                         (handleStreamingRequest env newResponse claudePrompt
                            requestedModel sdkModel)
                  else (case handleNonStreamingRequest env claudePrompt
                               requestedModel sdkModel of
                          Inl error \<Rightarrow> nextError error
                        | Inr completion \<Rightarrow> JsonResult 200 completion)))"

section \<open>Notions used to state the properties\<close>

text \<open>The two kinds of content block \<open>extractContent\<close> acts on, by its own tests.\<close>

definition isTextBlock :: "ClaudeContentBlock \<Rightarrow> bool" where
  "isTextBlock b = (block_type b = ''text'' \<and> truthy (block_text b))"

definition isToolUseBlock :: "ClaudeContentBlock \<Rightarrow> bool" where
  "isToolUseBlock b = (block_type b = ''tool_use'' \<and> truthy (block_name b))"

text \<open>The content blocks of a message; none when the message has no inner message.\<close>

definition blocksOf :: "ClaudeMessage \<Rightarrow> ClaudeContentBlock list" where
  "blocksOf message = (case msg_message message of None \<Rightarrow> [] | Some m \<Rightarrow> inner_content m)"

text \<open>
  The tool calls built from a list of tool-use blocks when \<open>k\<close> calls of \<open>nanoid\<close> have
  been made before.
\<close>

fun blockCalls :: "(nat \<Rightarrow> string) \<Rightarrow> nat \<Rightarrow> ClaudeContentBlock list \<Rightarrow> OpenAIToolCall list" where
  "blockCalls gen k [] = []"
| "blockCalls gen k (b # bs) =
     (let f = \<lparr>fn_name = the (block_name b),
                fn_arguments = JSON_stringify
                  (case block_input b of
                     None \<Rightarrow> JObj []
                   | Some v \<Rightarrow> if jsTruthy v then v else JObj [])\<rparr>
      in if truthy (block_id b)
         then \<lparr>tc_id = the (block_id b), tc_type = ''function'', tc_function = f\<rparr>
                # blockCalls gen k bs
         else \<lparr>tc_id = ''call_'' @ gen k, tc_type = ''function'', tc_function = f\<rparr>
                # blockCalls gen (Suc k) bs)"

text \<open>
  Every tool call the handlers' loops extract from a run, in arrival order, when \<open>k\<close>
  calls of \<open>nanoid\<close> have been made before the first message.
\<close>

fun extractedCalls :: "(nat \<Rightarrow> string) \<Rightarrow> nat \<Rightarrow> ClaudeMessage list \<Rightarrow> OpenAIToolCall list" where
  "extractedCalls gen k [] = []"
| "extractedCalls gen k (m # ms) =
     (if isAssistantMessage m
      then (case extractContent gen m k of
              (extracted, k') \<Rightarrow> toolCalls extracted @ extractedCalls gen k' ms)
      else extractedCalls gen k ms)"

text \<open>
  The blocks of kind \<open>tool_use\<close> with a non-empty name that the assistant messages of a
  run carry, in arrival order.
\<close>

definition toolUseBlocks :: "ClaudeMessage list \<Rightarrow> ClaudeContentBlock list" where
  "toolUseBlocks evs =
     concat (map (\<lambda>m. filter isToolUseBlock (blocksOf m)) (filter isAssistantMessage evs))"

text \<open>
  The text the handlers' loops extract from one message. It depends neither on the id
  source nor on the number of calls made before, so any may stand here.
\<close>

definition extractedText :: "ClaudeMessage \<Rightarrow> string" where
  "extractedText message = textContent (fst (extractContent (\<lambda>k. []) message 0))"

text \<open>
  The tool calls of a list whose id is neither in \<open>seen\<close> nor carried by an earlier call of
  the list.
\<close>

fun firstSeen :: "string set \<Rightarrow> OpenAIToolCall list \<Rightarrow> OpenAIToolCall list" where
  "firstSeen seen [] = []"
| "firstSeen seen (tc # tcs) =
     (if tc_id tc \<in> seen then firstSeen seen tcs
      else tc # firstSeen (insert (tc_id tc) seen) tcs)"

text \<open>The run a handler consumes for a given prompt.\<close>

definition backendRun :: "Env \<Rightarrow> ClaudePrompt \<Rightarrow> SdkModel \<Rightarrow> BackendRun" where
  "backendRun env claudePrompt sdkModel =
     queryClaudeAgent env
       \<lparr>opt_prompt = prompt claudePrompt,
        opt_systemPrompt = systemPrompt claudePrompt,
        opt_model = Some sdkModel,
        opt_noToolExecution = Some (noToolExecution (config env))\<rparr>"

text \<open>The paths \<open>choices[0].message.content\<close> and so on into a completion object.\<close>

definition choice0 :: "json \<Rightarrow> json option" where
  "choice0 c = Option.bind (getProp ''choices'' c) (getElement 0)"

definition completionContent :: "json \<Rightarrow> json option" where
  "completionContent c =
     Option.bind (Option.bind (choice0 c) (getProp ''message'')) (getProp ''content'')"

definition completionToolCalls :: "json \<Rightarrow> json option" where
  "completionToolCalls c =
     Option.bind (Option.bind (choice0 c) (getProp ''message'')) (getProp ''tool_calls'')"

definition completionFinishReason :: "json \<Rightarrow> json option" where
  "completionFinishReason c = Option.bind (choice0 c) (getProp ''finish_reason'')"

text \<open>
  A message with exactly one block of kind \<open>tool_use\<close>, that block with a non-empty
  name, and no block of kind \<open>text\<close>.
\<close>

definition oneToolUseNoText :: "ClaudeMessage \<Rightarrow> bool" where
  "oneToolUseNoText m =
     (length (filter (\<lambda>b. block_type b = ''tool_use'') (blocksOf m)) = 1
      \<and> list_all (\<lambda>b. block_type b \<noteq> ''text'') (blocksOf m)
      \<and> list_all truthy
            (map block_name (filter (\<lambda>b. block_type b = ''tool_use'') (blocksOf m))))"

text \<open>
  The frame that carries a JSON value, the terminator, the error frame for a message (an
  object with the one property \<open>error\<close>, holding the message, the type
  \<open>internal_error\<close>, a null \<open>param\<close> and the code \<open>stream_error\<close>), and the test
  for a frame whose object starts with the property \<open>error\<close>.
\<close>

definition chunkFrame :: "json \<Rightarrow> string" where
  "chunkFrame v = ''data: '' @ JSON_stringify v @ [CHR 0x0A, CHR 0x0A]"

definition doneFrame :: string where
  "doneFrame = ''data: [DONE]'' @ [CHR 0x0A, CHR 0x0A]"

definition errorFrame :: "string \<Rightarrow> string" where
  "errorFrame message =
     chunkFrame
        (JObj [(''error'',
                JObj [(''message'', JStr message),
                      (''type'', JStr ''internal_error''),
                      (''param'', JNull),
                      (''code'', JStr ''stream_error'')])])"

definition isErrorFrame :: "string \<Rightarrow> bool" where
  "isErrorFrame s = prefix (''data: {'' @ [CHR 0x22] @ ''error'' @ [CHR 0x22] @ '':'') s"

text \<open>
  Values for the worked examples: a content block of a given kind with no optional
  property, a text block, a tool-use block with an id (or none) and a tool name, a tool
  call with id, name and arguments, an assistant message with given blocks, a result
  message, a plain OpenAI message, a request with given messages and nothing else, and
  an environment whose backend yields a given run, whose \<open>nanoid\<close> returns \<open>"0"\<close>,
  \<open>"1"\<close>, \<dots> and whose clock advances one second per reading.
\<close>

definition contentBlock :: "string \<Rightarrow> ClaudeContentBlock" where
  "contentBlock t =
     \<lparr>block_type = t, block_text = None, block_name = None, block_input = None,
      block_id = None\<rparr>"

definition textBlock :: "string \<Rightarrow> ClaudeContentBlock" where
  "textBlock t = (contentBlock ''text'')\<lparr>block_text := Some t\<rparr>"

definition toolUseBlock :: "string option \<Rightarrow> string \<Rightarrow> ClaudeContentBlock" where
  "toolUseBlock i n = (contentBlock ''tool_use'')\<lparr>block_id := i, block_name := Some n\<rparr>"

definition toolCall :: "string \<Rightarrow> string \<Rightarrow> string \<Rightarrow> OpenAIToolCall" where
  "toolCall i n a =
     \<lparr>tc_id = i, tc_type = ''function'', tc_function = \<lparr>fn_name = n, fn_arguments = a\<rparr>\<rparr>"

definition assistantMessage :: "ClaudeContentBlock list \<Rightarrow> ClaudeMessage" where
  "assistantMessage bs =
     \<lparr>msg_type = ''assistant'', msg_subtype = None,
      msg_message = Some \<lparr>inner_role = ''assistant'', inner_content = bs\<rparr>,
      msg_result = None, msg_usage = None\<rparr>"

definition resultMessage :: "ClaudeUsage option \<Rightarrow> ClaudeMessage" where
  "resultMessage u =
     \<lparr>msg_type = ''result'', msg_subtype = Some ''success'', msg_message = None,
      msg_result = None, msg_usage = u\<rparr>"

definition plainMessage :: "string \<Rightarrow> MessageContent \<Rightarrow> OpenAIMessage" where
  "plainMessage r c =
     \<lparr>role = r, content = c, name = None, tool_calls = None, tool_call_id = None\<rparr>"

definition chatRequest :: "OpenAIMessage list \<Rightarrow> OpenAIChatRequest" where
  "chatRequest ms = \<lparr>model = None, messages = ms, stream = None\<rparr>"

definition exampleEnv :: "BackendRun \<Rightarrow> Env" where
  "exampleEnv run =
     \<lparr>nanoid = decimal,
      dateNow = (\<lambda>k. 1000 * int k),
      sdkQuery = (\<lambda>p q. run),
      config = \<lparr>port = 28000, apiSecret = ''secret'', workingDir = ''/srv'',
                 allowedTools = [''Read'', ''Edit'', ''Bash''],
                 permissionMode = ''acceptEdits'', maxTurns = 50,
                 noToolExecution = True\<rparr>\<rparr>"

section \<open>Content extraction\<close>

lemma extractBlock_step:
  "extractBlock gen (tp, tcs, k) b =
     (if isTextBlock b then (tp @ [the (block_text b)], tcs, k)
      else if isToolUseBlock b
        then (tp, tcs @ blockCalls gen k [b], if truthy (block_id b) then k else Suc k)
      else (tp, tcs, k))"
  by (simp add: extractBlock_def isTextBlock_def isToolUseBlock_def generateToolCallId_def
      Let_def)

lemma text_not_tool: "isTextBlock b \<Longrightarrow> \<not> isToolUseBlock b"
  by (auto simp: isTextBlock_def isToolUseBlock_def)

lemma foldl_extractBlock:
  "foldl (extractBlock gen) (tp, tcs, k) bs =
     (tp @ map (\<lambda>b. the (block_text b)) (filter isTextBlock bs),
      tcs @ blockCalls gen k (filter isToolUseBlock bs),
      k + length (filter (\<lambda>b. \<not> truthy (block_id b)) (filter isToolUseBlock bs)))"
proof (induction bs arbitrary: tp tcs k)
  case Nil
  show ?case by simp
next
  case (Cons b bs)
  consider (istext) "isTextBlock b" "\<not> isToolUseBlock b"
    | (istool) "\<not> isTextBlock b" "isToolUseBlock b"
    | (neither) "\<not> isTextBlock b" "\<not> isToolUseBlock b"
    using text_not_tool by blast
  then show ?case
  proof cases
    case istext
    then show ?thesis by (simp add: Cons.IH extractBlock_step)
  next
    case istool
    then show ?thesis by (simp add: Cons.IH extractBlock_step Let_def)
  next
    case neither
    then show ?thesis by (simp add: Cons.IH extractBlock_step)
  qed
qed

lemma extractContent_eq:
  "extractContent gen m k =
     (\<lparr>textContent = join LF (map (\<lambda>b. the (block_text b)) (filter isTextBlock (blocksOf m))),
       toolCalls = blockCalls gen k (filter isToolUseBlock (blocksOf m))\<rparr>,
      k + length (filter (\<lambda>b. \<not> truthy (block_id b)) (filter isToolUseBlock (blocksOf m))))"
  by (simp add: extractContent_def blocksOf_def foldl_extractBlock split: option.splits)

lemma length_blockCalls: "length (blockCalls gen k bs) = length bs"
  by (induction bs arbitrary: k) (simp_all add: Let_def)

lemma textContent_extractContent:
  "textContent (fst (extractContent gen m k)) = extractedText m"
  by (simp add: extractedText_def extractContent_eq)


lemma blockCalls_names:
  "map (\<lambda>tc. fn_name (tc_function tc)) (blockCalls gen k bs) = map (\<lambda>b. the (block_name b)) bs"
  by (induction bs arbitrary: k) (simp_all add: Let_def)

lemma blockCalls_arguments:
  "map (\<lambda>tc. fn_arguments (tc_function tc)) (blockCalls gen k bs) =
     map (\<lambda>b. case block_input b of
                None \<Rightarrow> ''{}''
              | Some v \<Rightarrow> if jsTruthy v then JSON_stringify v else ''{}'') bs"
  by (induction bs arbitrary: k) (simp_all add: Let_def split: option.splits)

lemma blockCalls_types:
  "map tc_type (blockCalls gen k bs) = map (\<lambda>b. ''function'') bs"
  by (induction bs arbitrary: k) (simp_all add: Let_def)

lemma blockCalls_given_ids:
  "j < length bs \<Longrightarrow> truthy (block_id (bs ! j)) \<Longrightarrow>
     tc_id (blockCalls gen k bs ! j) = the (block_id (bs ! j))"
proof (induction bs arbitrary: k j)
  case Nil
  then show ?case by simp
next
  case (Cons b bs)
  show ?case
  proof (cases j)
    case 0
    with Cons.prems show ?thesis by (simp add: Let_def)
  next
    case (Suc i)
    with Cons.prems have "i < length bs" "truthy (block_id (bs ! i))" by simp_all
    then have "tc_id (blockCalls gen k' bs ! i) = the (block_id (bs ! i))" for k'
      by (rule Cons.IH)
    with Suc show ?thesis by (simp add: Let_def)
  qed
qed

lemma blockCalls_synthesized_ids:
  "map (\<lambda>p. tc_id (fst p))
       (filter (\<lambda>p. \<not> truthy (block_id (snd p))) (zip (blockCalls gen k bs) bs)) =
     map (\<lambda>i. ''call_'' @ gen i)
       [k ..< k + length (filter (\<lambda>b. \<not> truthy (block_id b)) bs)]"
proof (induction bs arbitrary: k)
  case Nil
  show ?case by simp
next
  case (Cons b bs)
  show ?case
  proof (cases "truthy (block_id b)")
    case True
    then show ?thesis by (simp add: Let_def Cons.IH)
  next
    case False
    have "[k ..< k + Suc n] = k # [Suc k ..< Suc k + n]" for n
      by (simp add: upt_conv_Cons)
    with False show ?thesis by (simp add: Let_def Cons.IH)
  qed
qed

lemma blockCalls_synthesized_nth:
  "j < length bs \<Longrightarrow> \<not> truthy (block_id (bs ! j)) \<Longrightarrow>
     tc_id (blockCalls gen k bs ! j) =
       ''call_'' @ gen (k + length (filter (\<lambda>b. \<not> truthy (block_id b)) (take j bs)))"
proof (induction bs arbitrary: k j)
  case Nil
  then show ?case by simp
next
  case (Cons b bs)
  show ?case
  proof (cases j)
    case 0
    with Cons.prems show ?thesis by (simp add: Let_def)
  next
    case (Suc i)
    with Cons.prems have i: "i < length bs" "\<not> truthy (block_id (bs ! i))" by simp_all
    have "tc_id (blockCalls gen k' bs ! i) =
       ''call_'' @ gen (k' + length (filter (\<lambda>b. \<not> truthy (block_id b)) (take i bs)))" for k'
      using i by (rule Cons.IH)
    with Suc show ?thesis by (simp add: Let_def)
  qed
qed

lemma count_take_less:
  assumes "j < j'" and "j' \<le> length bs" and "P (bs ! j)"
  shows "length (filter P (take j bs)) < length (filter P (take j' bs))"
proof -
  from assms(1,2) have j: "j < length bs" by simp
  have "take j' bs = take j bs @ take (j' - j) (drop j bs)"
    using assms(1) by (metis le_add_diff_inverse less_imp_le take_add)
  also have "drop j bs = bs ! j # drop (Suc j) bs"
    using j by (simp add: Cons_nth_drop_Suc)
  also have "take (j' - j) (bs ! j # drop (Suc j) bs)
      = bs ! j # take (j' - j - 1) (drop (Suc j) bs)"
    using assms(1) by (cases "j' - j") simp_all
  finally show ?thesis using assms(3) by simp
qed

lemma blockCalls_synthesized_unique:
  assumes d: "distinct (map gen [k ..< k + length (filter (\<lambda>b. \<not> truthy (block_id b)) bs)])"
    and f: "\<forall>b \<in> set bs. truthy (block_id b) \<longrightarrow>
              the (block_id b) \<notin> set (map (\<lambda>i. ''call_'' @ gen i)
                  [k ..< k + length (filter (\<lambda>b. \<not> truthy (block_id b)) bs)])"
    and j: "j < length bs" "\<not> truthy (block_id (bs ! j))"
    and j': "j' < length bs" "j' \<noteq> j"
  shows "tc_id (blockCalls gen k bs ! j') \<noteq> tc_id (blockCalls gen k bs ! j)"
proof -
  let ?P = "\<lambda>b. \<not> truthy (block_id b)"
  let ?n = "\<lambda>i. k + length (filter ?P (take i bs))"
  let ?k' = "k + length (filter ?P bs)"
  have bound: "?n i < ?k'" if "i < length bs" "?P (bs ! i)" for i
    using count_take_less [of i "length bs" bs ?P] that by simp
  have idj: "tc_id (blockCalls gen k bs ! j) = ''call_'' @ gen (?n j)"
    using j by (rule blockCalls_synthesized_nth)
  from d have inj: "inj_on gen {k ..< ?k'}"
    by (simp add: distinct_map)
  show ?thesis
  proof (cases "truthy (block_id (bs ! j'))")
    case True
    then have "tc_id (blockCalls gen k bs ! j') = the (block_id (bs ! j'))"
      using j'(1) by (simp add: blockCalls_given_ids)
    moreover from f True j'(1) have "the (block_id (bs ! j')) \<noteq> ''call_'' @ gen (?n j)"
      using bound [OF j] by (auto simp: image_iff)
    ultimately show ?thesis by (simp add: idj)
  next
    case False
    then have idj': "tc_id (blockCalls gen k bs ! j') = ''call_'' @ gen (?n j')"
      using j'(1) by (simp add: blockCalls_synthesized_nth)
    have "?n j \<noteq> ?n j'"
    proof (cases "j < j'")
      case True
      from count_take_less [of j j' bs ?P] True j(2) j'(1) show ?thesis by simp
    next
      case no: False
      with j'(2) have "j' < j" by simp
      from count_take_less [of j' j bs ?P] this False j(1) show ?thesis by simp
    qed
    moreover have "?n j \<in> {k ..< ?k'}" "?n j' \<in> {k ..< ?k'}"
      using bound [OF j] bound [OF j'(1) False] by simp_all
    ultimately have "gen (?n j) \<noteq> gen (?n j')"
      using inj by (auto dest: inj_onD)
    then show ?thesis by (simp add: idj idj')
  qed
qed

text \<open>Unfolding sets for evaluating the definitions on concrete values.\<close>

lemmas ex_defs = contentBlock_def textBlock_def toolUseBlock_def assistantMessage_def
  resultMessage_def blocksOf_def isTextBlock_def isToolUseBlock_def truthy_def

lemmas run_defs = extractContent_def extractBlock_def generateToolCallId_def LF_def
  digitChar_def quoteJSONString_def escapeChar_def numberToString_def

lemmas handler_defs = handleNonStreamingRequest_def collectMessage_def collectToolCall_def
  isAssistantMessage_def isResultMessage_def queryClaudeAgent_def backendRun_def
  exampleEnv_def generateCompletionId_def mapPermissionMode_def extractUsage_def

text \<open>
  C7, as the code has it. For a message read from call \<open>k\<close> of \<open>nanoid\<close> on,
  \<open>extractContent\<close> returns one tool call for each block of kind \<open>tool_use\<close> that has a
  non-empty name, in block order: the name is the block's name, the arguments are the
  JSON text of the block's input, \<open>{}\<close> when the input is absent or a falsy value
  (\<open>null\<close>, \<open>false\<close>, \<open>0\<close>, the empty string), and the type is \<open>function\<close>. The id is the
  block's id where that is present and non-empty; the blocks without one get \<open>call_\<close>
  followed by the values of the \<open>nanoid\<close> calls \<open>k\<close>, \<open>k + 1\<close>, \<dots> in order, one call
  each, and \<open>k'\<close> is the number of calls made afterwards. A synthesized id is unique: when
  the values of these \<open>nanoid\<close> calls are pairwise distinct and no block carries one of
  the synthesized ids as its own id, no other tool call of the message has the id of a
  block without one. The text is that of the blocks of kind \<open>text\<close> with non-empty text,
  joined by a line feed in block order. Every other block contributes nothing.
\<close>

theorem extractContent_per_block:
  assumes "extractContent gen message k = (r, k')"
    and "tbs = filter isToolUseBlock (blocksOf message)"
  shows "textContent r =
           join LF (map (\<lambda>b. the (block_text b)) (filter isTextBlock (blocksOf message)))
       \<and> length (toolCalls r) = length tbs
       \<and> map (\<lambda>tc. fn_name (tc_function tc)) (toolCalls r) = map (\<lambda>b. the (block_name b)) tbs
       \<and> map (\<lambda>tc. fn_arguments (tc_function tc)) (toolCalls r) =
           map (\<lambda>b. case block_input b of
                      None \<Rightarrow> ''{}''
                    | Some v \<Rightarrow> if jsTruthy v then JSON_stringify v else ''{}'') tbs
       \<and> map tc_type (toolCalls r) = map (\<lambda>b. ''function'') tbs
       \<and> (\<forall>j < length tbs. truthy (block_id (tbs ! j)) \<longrightarrow>
             tc_id (toolCalls r ! j) = the (block_id (tbs ! j)))
       \<and> map (\<lambda>p. tc_id (fst p))
             (filter (\<lambda>p. \<not> truthy (block_id (snd p))) (zip (toolCalls r) tbs)) =
           map (\<lambda>i. ''call_'' @ gen i) [k ..< k']
       \<and> (distinct (map gen [k ..< k'])
            \<and> (\<forall>b \<in> set tbs. truthy (block_id b) \<longrightarrow>
                  the (block_id b) \<notin> set (map (\<lambda>i. ''call_'' @ gen i) [k ..< k']))
          \<longrightarrow> (\<forall>j < length tbs. \<not> truthy (block_id (tbs ! j)) \<longrightarrow>
                 (\<forall>j' < length tbs. j' \<noteq> j \<longrightarrow>
                    tc_id (toolCalls r ! j') \<noteq> tc_id (toolCalls r ! j))))"
proof -
  from assms have r: "toolCalls r = blockCalls gen k tbs"
    and t: "textContent r =
           join LF (map (\<lambda>b. the (block_text b)) (filter isTextBlock (blocksOf message)))"
    and k': "k' = k + length (filter (\<lambda>b. \<not> truthy (block_id b)) tbs)"
    by (auto simp: extractContent_eq)
  have per_block: "length (toolCalls r) = length tbs
       \<and> map (\<lambda>tc. fn_name (tc_function tc)) (toolCalls r) = map (\<lambda>b. the (block_name b)) tbs
       \<and> map (\<lambda>tc. fn_arguments (tc_function tc)) (toolCalls r) =
           map (\<lambda>b. case block_input b of
                      None \<Rightarrow> ''{}''
                    | Some v \<Rightarrow> if jsTruthy v then JSON_stringify v else ''{}'') tbs
       \<and> map tc_type (toolCalls r) = map (\<lambda>b. ''function'') tbs
       \<and> (\<forall>j < length tbs. truthy (block_id (tbs ! j)) \<longrightarrow>
             tc_id (toolCalls r ! j) = the (block_id (tbs ! j)))
       \<and> map (\<lambda>p. tc_id (fst p))
             (filter (\<lambda>p. \<not> truthy (block_id (snd p))) (zip (toolCalls r) tbs)) =
           map (\<lambda>i. ''call_'' @ gen i) [k ..< k']"
    unfolding r k'
    by (simp add: length_blockCalls blockCalls_names blockCalls_arguments blockCalls_types
        blockCalls_given_ids blockCalls_synthesized_ids)
  have unique: "tc_id (toolCalls r ! j') \<noteq> tc_id (toolCalls r ! j)"
    if "distinct (map gen [k ..< k'])"
      and "\<forall>b \<in> set tbs. truthy (block_id b) \<longrightarrow>
             the (block_id b) \<notin> set (map (\<lambda>i. ''call_'' @ gen i) [k ..< k'])"
      and "j < length tbs" and "\<not> truthy (block_id (tbs ! j))"
      and "j' < length tbs" and "j' \<noteq> j" for j j'
    using that unfolding r k' by (rule blockCalls_synthesized_unique)
  from t per_block unique show ?thesis by blast
qed

text \<open>
  The theorem at a message with a text block, a tool-use block with id and input, a block
  of another kind, a tool-use block without id and one without id whose input is \<open>null\<close>,
  read with three \<open>nanoid\<close> calls made before: the two \<open>nanoid\<close> values differ, no block
  id is a synthesized one, and the three ids of the result are pairwise distinct.
\<close>

theorem extractContent_per_block_witness:
  "extractContent decimal
       (assistantMessage
          [textBlock ''It is sunny.'',
           (toolUseBlock (Some ''toolu_1'') ''get_weather'')
              \<lparr>block_input := Some (JObj [(''city'', JStr ''Tokyo'')])\<rparr>,
           contentBlock ''thinking'',
           toolUseBlock None ''now'',
           (toolUseBlock None ''later'')\<lparr>block_input := Some JNull\<rparr>]) 3
     = (\<lparr>textContent = ''It is sunny.'',
         toolCalls =
           [\<lparr>tc_id = ''toolu_1'', tc_type = ''function'',
              tc_function = \<lparr>fn_name = ''get_weather'',
                fn_arguments = ''{'' @ [CHR 0x22] @ ''city'' @ [CHR 0x22] @ '':''
                               @ [CHR 0x22] @ ''Tokyo'' @ [CHR 0x22] @ ''}''\<rparr>\<rparr>,
            \<lparr>tc_id = ''call_3'', tc_type = ''function'',
              tc_function = \<lparr>fn_name = ''now'', fn_arguments = ''{}''\<rparr>\<rparr>,
            \<lparr>tc_id = ''call_4'', tc_type = ''function'',
              tc_function = \<lparr>fn_name = ''later'', fn_arguments = ''{}''\<rparr>\<rparr>]\<rparr>, 5)
   \<and> map (\<lambda>i. ''call_'' @ decimal i) [3 ..< 5] = [''call_3'', ''call_4'']
   \<and> distinct (map decimal [3 ..< 5])
   \<and> ''toolu_1'' \<notin> set (map (\<lambda>i. ''call_'' @ decimal i) [3 ..< 5])"
proof -
  let ?a = "(toolUseBlock (Some ''toolu_1'') ''get_weather'')
              \<lparr>block_input := Some (JObj [(''city'', JStr ''Tokyo'')])\<rparr>"
  let ?b = "toolUseBlock None ''now''"
  let ?c = "(toolUseBlock None ''later'')\<lparr>block_input := Some JNull\<rparr>"
  let ?m = "assistantMessage
          [textBlock ''It is sunny.'', ?a, contentBlock ''thinking'', ?b, ?c]"
  obtain r k' where e: "extractContent decimal ?m 3 = (r, k')"
    by (cases "extractContent decimal ?m 3")
  have tbs: "filter isToolUseBlock (blocksOf ?m) = [?a, ?b, ?c]"
    by (simp add: ex_defs)
  have v: "extractContent decimal ?m 3 = (\<lparr>textContent = ''It is sunny.'',
         toolCalls =
           [\<lparr>tc_id = ''toolu_1'', tc_type = ''function'',
              tc_function = \<lparr>fn_name = ''get_weather'',
                fn_arguments = ''{'' @ [CHR 0x22] @ ''city'' @ [CHR 0x22] @ '':''
                               @ [CHR 0x22] @ ''Tokyo'' @ [CHR 0x22] @ ''}''\<rparr>\<rparr>,
            \<lparr>tc_id = ''call_3'', tc_type = ''function'',
              tc_function = \<lparr>fn_name = ''now'', fn_arguments = ''{}''\<rparr>\<rparr>,
            \<lparr>tc_id = ''call_4'', tc_type = ''function'',
              tc_function = \<lparr>fn_name = ''later'', fn_arguments = ''{}''\<rparr>\<rparr>]\<rparr>, 5)"
    by (simp add: ex_defs run_defs)
  with e have k': "k' = 5" by simp
  have upt: "[3 ..< 5] = [3, 4::nat]"
    by (simp add: upt_rec)
  have d: "distinct (map decimal [3 ..< 5])"
    by (simp add: upt decimal.simps digitChar_def)
  have f: "''toolu_1'' \<notin> set (map (\<lambda>i. ''call_'' @ decimal i) [3 ..< 5])"
    by (simp add: upt)
  have fresh: "\<forall>b \<in> set [?a, ?b, ?c]. truthy (block_id b) \<longrightarrow>
      the (block_id b) \<notin> set (map (\<lambda>i. ''call_'' @ decimal i) [3 ..< k'])"
    using f by (simp add: k' ex_defs)
  note w = extractContent_per_block [OF e tbs [symmetric]]
  from w have ids: "map (\<lambda>p. tc_id (fst p))
             (filter (\<lambda>p. \<not> truthy (block_id (snd p))) (zip (toolCalls r) [?a, ?b, ?c])) =
           map (\<lambda>i. ''call_'' @ decimal i) [3 ..< k']"
    by blast
  from w d fresh have "\<forall>j < length [?a, ?b, ?c]. \<not> truthy (block_id ([?a, ?b, ?c] ! j)) \<longrightarrow>
        (\<forall>j' < length [?a, ?b, ?c]. j' \<noteq> j \<longrightarrow>
           tc_id (toolCalls r ! j') \<noteq> tc_id (toolCalls r ! j))"
    unfolding k' by blast
  with ids v e d f show ?thesis by (simp add: ex_defs digitChar_def upt)
qed

text \<open>
  C7 as stated fails. The first message below has three text blocks and two blocks of
  kind \<open>tool_use\<close>: the empty text block is skipped, so the text has one line feed where
  the statement gives two; the tool-use block without a name yields no tool call, so
  there is one tool call for two blocks; and the block whose id is the empty string gets
  a synthesized id although its id is present. In the second message the input of the
  block is present, the number \<open>0\<close>, and the arguments are \<open>{}\<close>, not its JSON text \<open>0\<close>.
  In the third message a block carries as its own id the id synthesized for the next
  block, so the synthesized id is not unique.
\<close>

theorem extractContent_unnamed_and_empty_blocks:
  "extractContent decimal
       (assistantMessage
          [textBlock ''a'', textBlock [], textBlock ''b'',
           (contentBlock ''tool_use'')\<lparr>block_id := Some ''toolu_1''\<rparr>,
           toolUseBlock (Some []) ''now'']) 0
     = (\<lparr>textContent = ''a'' @ LF @ ''b'',
         toolCalls =
           [\<lparr>tc_id = ''call_0'', tc_type = ''function'',
              tc_function = \<lparr>fn_name = ''now'', fn_arguments = ''{}''\<rparr>\<rparr>]\<rparr>, 1)
   \<and> extractContent decimal
       (assistantMessage
          [(toolUseBlock (Some ''toolu_1'') ''wait'')\<lparr>block_input := Some (JNum 0)\<rparr>]) 0
     = (\<lparr>textContent = [],
         toolCalls =
           [\<lparr>tc_id = ''toolu_1'', tc_type = ''function'',
              tc_function = \<lparr>fn_name = ''wait'', fn_arguments = ''{}''\<rparr>\<rparr>]\<rparr>, 0)
   \<and> JSON_stringify (JNum 0) = ''0''
   \<and> extractContent decimal
       (assistantMessage [toolUseBlock (Some ''call_0'') ''now'', toolUseBlock None ''later'']) 0
     = (\<lparr>textContent = [],
         toolCalls =
           [\<lparr>tc_id = ''call_0'', tc_type = ''function'',
              tc_function = \<lparr>fn_name = ''now'', fn_arguments = ''{}''\<rparr>\<rparr>,
            \<lparr>tc_id = ''call_0'', tc_type = ''function'',
              tc_function = \<lparr>fn_name = ''later'', fn_arguments = ''{}''\<rparr>\<rparr>]\<rparr>, 1)"
  by (simp add: ex_defs run_defs)

section \<open>Non-streaming assembly\<close>

lemma foldl_collectToolCall:
  "collectedToolCalls (foldl collectToolCall st tcs) =
       collectedToolCalls st @ firstSeen (seenToolCallIds st) tcs
   \<and> seenToolCallIds (foldl collectToolCall st tcs) = seenToolCallIds st \<union> set (map tc_id tcs)
   \<and> usage (foldl collectToolCall st tcs) = usage st
   \<and> collectedContent (foldl collectToolCall st tcs) = collectedContent st
   \<and> c_nanoidCalls (foldl collectToolCall st tcs) = c_nanoidCalls st"
proof (induction tcs arbitrary: st)
  case Nil
  show ?case by simp
next
  case (Cons tc tcs)
  show ?case by (simp add: Cons.IH) (auto simp: collectToolCall_def)
qed

lemma collectMessage_usage:
  "usage (collectMessage env st m) = (if isResultMessage m then extractUsage m else usage st)"
  by (simp add: collectMessage_def Let_def foldl_collectToolCall split: prod.splits)

lemma collectMessage_content:
  "collectedContent (collectMessage env st m) =
     collectedContent st @
       (if isAssistantMessage m \<and> extractedText m \<noteq> [] then [extractedText m] else [])"
proof -
  obtain r k where e: "extractContent (nanoid env) m (c_nanoidCalls st) = (r, k)"
    by (cases "extractContent (nanoid env) m (c_nanoidCalls st)")
  with textContent_extractContent [of "nanoid env" m "c_nanoidCalls st"]
  have "textContent r = extractedText m" by simp
  with e show ?thesis
    by (simp add: collectMessage_def Let_def foldl_collectToolCall)
qed

lemma collectMessage_calls:
  "isAssistantMessage m \<Longrightarrow> extractContent (nanoid env) m (c_nanoidCalls st) = (r, k) \<Longrightarrow>
     collectedToolCalls (collectMessage env st m) =
         collectedToolCalls st @ firstSeen (seenToolCallIds st) (toolCalls r)
     \<and> seenToolCallIds (collectMessage env st m) =
         seenToolCallIds st \<union> set (map tc_id (toolCalls r))
     \<and> c_nanoidCalls (collectMessage env st m) = k"
  by (simp add: collectMessage_def Let_def foldl_collectToolCall)

lemma collectMessage_other:
  "\<not> isAssistantMessage m \<Longrightarrow>
     collectedToolCalls (collectMessage env st m) = collectedToolCalls st
     \<and> seenToolCallIds (collectMessage env st m) = seenToolCallIds st
     \<and> c_nanoidCalls (collectMessage env st m) = c_nanoidCalls st"
  by (simp add: collectMessage_def Let_def)

lemma foldl_collectMessage_usage:
  "usage (foldl (collectMessage env) st evs) =
     (case filter isResultMessage evs of [] \<Rightarrow> usage st | r # rs \<Rightarrow> extractUsage (last (r # rs)))"
proof (induction evs arbitrary: st)
  case Nil
  show ?case by simp
next
  case (Cons m evs)
  show ?case by (simp add: Cons.IH collectMessage_usage split: list.splits)
qed

lemma foldl_collectMessage_content:
  "collectedContent (foldl (collectMessage env) st evs) =
     collectedContent st @
       filter (\<lambda>t. t \<noteq> []) (map extractedText (filter isAssistantMessage evs))"
  by (induction evs arbitrary: st) (simp_all add: collectMessage_content)

lemma firstSeen_append:
  "firstSeen seen (xs @ ys) = firstSeen seen xs @ firstSeen (seen \<union> set (map tc_id xs)) ys"
proof (induction xs arbitrary: seen)
  case Nil
  show ?case by simp
next
  case (Cons x xs)
  show ?case
  proof (cases "tc_id x \<in> seen")
    case True
    then have "insert (tc_id x) (seen \<union> tc_id ` set xs) = seen \<union> tc_id ` set xs"
      by auto
    with True show ?thesis by (simp add: Cons.IH)
  next
    case False
    then show ?thesis by (simp add: Cons.IH)
  qed
qed

lemma foldl_collectMessage_calls:
  "collectedToolCalls (foldl (collectMessage env) st evs) =
     collectedToolCalls st
       @ firstSeen (seenToolCallIds st) (extractedCalls (nanoid env) (c_nanoidCalls st) evs)"
proof (induction evs arbitrary: st)
  case Nil
  show ?case by simp
next
  case (Cons m evs)
  show ?case
  proof (cases "isAssistantMessage m")
    case True
    obtain r k where e: "extractContent (nanoid env) m (c_nanoidCalls st) = (r, k)"
      by (cases "extractContent (nanoid env) m (c_nanoidCalls st)")
    from collectMessage_calls [OF True e] True e show ?thesis
      by (simp add: Cons.IH firstSeen_append)
  next
    case False
    with collectMessage_other [OF False, of env st] show ?thesis
      by (simp add: Cons.IH)
  qed
qed


lemma firstSeen_seen:
  "i \<in> seen \<Longrightarrow> filter (\<lambda>t. tc_id t = i) (firstSeen seen xs) = []"
  by (induction xs arbitrary: seen) auto

lemma firstSeen_once:
  "i \<notin> seen \<Longrightarrow> i \<in> set (map tc_id xs) \<Longrightarrow>
     length (filter (\<lambda>t. tc_id t = i) (firstSeen seen xs)) = 1
     \<and> find (\<lambda>t. tc_id t = i) (firstSeen seen xs) = find (\<lambda>t. tc_id t = i) xs"
proof (induction xs arbitrary: seen)
  case Nil
  then show ?case by simp
next
  case (Cons x xs)
  show ?case
  proof (cases "tc_id x = i")
    case True
    with Cons.prems show ?thesis by (simp add: firstSeen_seen)
  next
    case False
    with Cons.prems have "i \<in> set (map tc_id xs)" by auto
    moreover from False Cons.prems have "i \<notin> insert (tc_id x) seen" by simp
    ultimately show ?thesis using False Cons.IH Cons.prems(1) by simp
  qed
qed

lemma firstSeen_snoc:
  "firstSeen seen (xs @ [x]) =
     firstSeen seen xs @ (if tc_id x \<in> seen \<union> tc_id ` set xs then [] else [x])"
  by (simp add: firstSeen_append)

lemma firstSeen_positions:
  "firstSeen {} xs =
     map (\<lambda>j. xs ! j) (filter (\<lambda>j. tc_id (xs ! j) \<notin> tc_id ` set (take j xs)) [0 ..< length xs])"
proof (induction xs rule: rev_induct)
  case Nil
  show ?case by simp
next
  case (snoc x xs)
  let ?ys = "xs @ [x]"
  let ?n = "length xs"
  have A: "filter (\<lambda>j. tc_id (?ys ! j) \<notin> tc_id ` set (take j ?ys)) [0 ..< ?n]
      = filter (\<lambda>j. tc_id (xs ! j) \<notin> tc_id ` set (take j xs)) [0 ..< ?n]"
    by (rule filter_cong) (simp_all add: nth_append)
  have B: "map (\<lambda>j. ?ys ! j) (filter (\<lambda>j. tc_id (xs ! j) \<notin> tc_id ` set (take j xs)) [0 ..< ?n])
      = map (\<lambda>j. xs ! j) (filter (\<lambda>j. tc_id (xs ! j) \<notin> tc_id ` set (take j xs)) [0 ..< ?n])"
    by (rule map_cong) (simp_all add: nth_append)
  have C: "map (\<lambda>j. ?ys ! j) (filter (\<lambda>j. tc_id (?ys ! j) \<notin> tc_id ` set (take j ?ys)) [?n])
      = (if tc_id x \<in> tc_id ` set xs then [] else [x])"
    by simp
  have "map (\<lambda>j. ?ys ! j)
          (filter (\<lambda>j. tc_id (?ys ! j) \<notin> tc_id ` set (take j ?ys)) [0 ..< length ?ys])
      = map (\<lambda>j. ?ys ! j) (filter (\<lambda>j. tc_id (?ys ! j) \<notin> tc_id ` set (take j ?ys)) [0 ..< ?n])
        @ map (\<lambda>j. ?ys ! j) (filter (\<lambda>j. tc_id (?ys ! j) \<notin> tc_id ` set (take j ?ys)) [?n])"
    by simp
  also have "\<dots> = firstSeen {} xs @ (if tc_id x \<in> tc_id ` set xs then [] else [x])"
    unfolding A B C snoc.IH [symmetric] ..
  also have "\<dots> = firstSeen {} ?ys"
    by (simp add: firstSeen_snoc)
  finally show ?case by simp
qed


lemma buildChatCompletion_content:
  "completionContent (buildChatCompletion t cid m c calls u) =
     Some (case c of None \<Rightarrow> JNull | Some s \<Rightarrow> JStr s)"
  by (simp add: completionContent_def choice0_def buildChatCompletion_def Let_def)

lemma buildChatCompletion_finish_reason:
  "completionFinishReason (buildChatCompletion t cid m c calls u) =
     Some (JStr (if calls = [] then ''stop'' else ''tool_calls''))"
  by (simp add: completionFinishReason_def choice0_def buildChatCompletion_def Let_def)

lemma buildChatCompletion_tool_calls:
  "completionToolCalls (buildChatCompletion t cid m c calls u) =
     (if calls = [] then None else Some (JArr (map toolCallObject calls)))"
  by (simp add: completionToolCalls_def choice0_def buildChatCompletion_def Let_def)

lemma buildChatCompletion_usage:
  "getProp ''usage'' (buildChatCompletion t cid m c calls u) = Some (usageObject u)"
  by (simp add: buildChatCompletion_def Let_def)

lemma handleNonStreamingRequest_eq:
  assumes "backendRun env cp sm = (evs, fin)"
    and "parts = filter (\<lambda>t. t \<noteq> []) (map extractedText (filter isAssistantMessage evs))"
  shows "handleNonStreamingRequest env cp rm sm =
     (case fin of
        Some error \<Rightarrow> Inl error
      | None \<Rightarrow>
          Inr (buildChatCompletion (dateNow env 0) (''chatcmpl-'' @ nanoid env 0) rm
                 (if parts = [] then None else Some (join (LF @ LF) parts))
                 (firstSeen {} (extractedCalls (nanoid env) 1 evs))
                 (case filter isResultMessage evs of
                    [] \<Rightarrow> \<lparr>prompt_tokens = 0, completion_tokens = 0, total_tokens = 0\<rparr>
                  | r # rs \<Rightarrow> extractUsage (last (r # rs)))))"
proof -
  define st0 where "st0 = \<lparr>collectedContent = [], collectedToolCalls = [],
      usage = \<lparr>prompt_tokens = 0, completion_tokens = 0, total_tokens = 0\<rparr>,
      seenToolCallIds = {}, c_nanoidCalls = Suc 0\<rparr>"
  define st where "st = foldl (collectMessage env) st0 evs"
  have content: "collectedContent st = parts"
    unfolding st_def foldl_collectMessage_content assms(2) by (simp add: st0_def)
  have calls: "collectedToolCalls st = firstSeen {} (extractedCalls (nanoid env) 1 evs)"
    unfolding st_def foldl_collectMessage_calls by (simp add: st0_def)
  have usage: "usage st = (case filter isResultMessage evs of
                    [] \<Rightarrow> \<lparr>prompt_tokens = 0, completion_tokens = 0, total_tokens = 0\<rparr>
                  | r # rs \<Rightarrow> extractUsage (last (r # rs)))"
    unfolding st_def foldl_collectMessage_usage by (simp add: st0_def split: list.splits)
  have "handleNonStreamingRequest env cp rm sm =
     (case fin of
        Some error \<Rightarrow> Inl error
      | None \<Rightarrow>
          Inr (buildChatCompletion (dateNow env 0) (''chatcmpl-'' @ nanoid env 0) rm
                 (if length (collectedContent st) > 0
                  then Some (join (LF @ LF) (collectedContent st)) else None)
                 (collectedToolCalls st) (usage st)))"
    using assms(1)
    by (simp add: handleNonStreamingRequest_def backendRun_def generateCompletionId_def
        Let_def st_def st0_def split: option.splits)
  then show ?thesis
    unfolding content calls usage by (simp split: option.splits)
qed

lemma join_not_empty:
  "xs \<noteq> [] \<Longrightarrow> \<forall>x \<in> set xs. x \<noteq> [] \<Longrightarrow> join sep xs \<noteq> []"
  by (induction sep xs rule: join.induct) simp_all

lemma firstSeen_empty_iff: "firstSeen {} xs = [] \<longleftrightarrow> xs = []"
  by (cases xs) simp_all

text \<open>
  C8. \<open>extractUsage\<close> reads the optional input and output token counts, each defaulting
  to 0, and sets the total to their sum; a message with no usage field gives 0, 0, 0. It
  is a total function with no error result. Every usage object in a completion that
  \<open>handleNonStreamingRequest\<close> returns has its total equal to the sum of the other two.
\<close>

theorem extractUsage_total_is_sum:
  "prompt_tokens (extractUsage message) =
       (case Option.bind (msg_usage message) input_tokens of None \<Rightarrow> 0 | Some n \<Rightarrow> n)
   \<and> completion_tokens (extractUsage message) =
       (case Option.bind (msg_usage message) output_tokens of None \<Rightarrow> 0 | Some n \<Rightarrow> n)
   \<and> total_tokens (extractUsage message) =
       prompt_tokens (extractUsage message) + completion_tokens (extractUsage message)
   \<and> (msg_usage message = None \<longrightarrow>
        extractUsage message = \<lparr>prompt_tokens = 0, completion_tokens = 0, total_tokens = 0\<rparr>)
   \<and> (\<forall>c. handleNonStreamingRequest env claudePrompt responseModel sdkModel = Inr c \<longrightarrow>
        (\<exists>u. getProp ''usage'' c = Some (usageObject u)
           \<and> total_tokens u = prompt_tokens u + completion_tokens u))"
proof -
  have sum: "total_tokens (extractUsage m) =
       prompt_tokens (extractUsage m) + completion_tokens (extractUsage m)" for m
    by (simp add: extractUsage_def Let_def)
  have reported: "\<exists>u. getProp ''usage'' c = Some (usageObject u)
           \<and> total_tokens u = prompt_tokens u + completion_tokens u"
    if c: "handleNonStreamingRequest env claudePrompt responseModel sdkModel = Inr c" for c
  proof -
    obtain evs fin where run: "backendRun env claudePrompt sdkModel = (evs, fin)"
      by (cases "backendRun env claudePrompt sdkModel")
    define u where "u = (case filter isResultMessage evs of
                    [] \<Rightarrow> \<lparr>prompt_tokens = 0, completion_tokens = 0, total_tokens = 0\<rparr>
                  | r # rs \<Rightarrow> extractUsage (last (r # rs)))"
    have "total_tokens u = prompt_tokens u + completion_tokens u"
      unfolding u_def using sum by (cases "filter isResultMessage evs") simp_all
    moreover from c handleNonStreamingRequest_eq [OF run refl, of responseModel]
    have "getProp ''usage'' c = Some (usageObject u)"
      by (auto simp: u_def buildChatCompletion_usage split: option.splits)
    ultimately show ?thesis by blast
  qed
  show ?thesis
    using sum [of message] reported
    by (simp add: extractUsage_def Let_def split: option.splits)
qed

text \<open>
  The theorem at a result message without usage, and at a run of one assistant message
  and one result message with usage 5 and 2.
\<close>

theorem extractUsage_total_is_sum_witness:
  "extractUsage (resultMessage (Some \<lparr>input_tokens = Some 5, output_tokens = Some 2\<rparr>))
     = \<lparr>prompt_tokens = 5, completion_tokens = 2, total_tokens = 7\<rparr>
   \<and> msg_usage (resultMessage None) = None
   \<and> extractUsage (resultMessage None)
     = \<lparr>prompt_tokens = 0, completion_tokens = 0, total_tokens = 0\<rparr>
   \<and> (\<exists>c u. handleNonStreamingRequest
            (exampleEnv ([assistantMessage [textBlock ''Hello''],
                          resultMessage (Some \<lparr>input_tokens = Some 5, output_tokens = Some 2\<rparr>)],
                         None))
            \<lparr>prompt = ''Hi'', systemPrompt = None\<rparr> ''claude-sonnet-4-5'' (ModelName ''sonnet'') = Inr c
          \<and> getProp ''usage'' c
              = Some (usageObject \<lparr>prompt_tokens = 5, completion_tokens = 2, total_tokens = 7\<rparr>)
          \<and> getProp ''usage'' c = Some (usageObject u)
          \<and> total_tokens u = prompt_tokens u + completion_tokens u)"
proof -
  let ?env = "exampleEnv ([assistantMessage [textBlock ''Hello''],
                          resultMessage (Some \<lparr>input_tokens = Some 5, output_tokens = Some 2\<rparr>)],
                         None)"
  let ?cp = "\<lparr>prompt = ''Hi'', systemPrompt = None\<rparr>"
  note t = extractUsage_total_is_sum [of "resultMessage None" ?env ?cp "''claude-sonnet-4-5''" "ModelName ''sonnet''"]
  have n: "msg_usage (resultMessage None) = None"
    by (simp add: resultMessage_def)
  with t have z: "extractUsage (resultMessage None)
     = \<lparr>prompt_tokens = 0, completion_tokens = 0, total_tokens = 0\<rparr>"
    by blast
  obtain c where c: "handleNonStreamingRequest ?env ?cp ''claude-sonnet-4-5'' (ModelName ''sonnet'') = Inr c"
    and cu: "getProp ''usage'' c
              = Some (usageObject \<lparr>prompt_tokens = 5, completion_tokens = 2, total_tokens = 7\<rparr>)"
    by (simp add: handler_defs ex_defs run_defs buildChatCompletion_def Let_def)
  from t c obtain u where "getProp ''usage'' c = Some (usageObject u)"
    and "total_tokens u = prompt_tokens u + completion_tokens u"
    by blast
  with c cu have "\<exists>c u. handleNonStreamingRequest ?env ?cp ''claude-sonnet-4-5'' (ModelName ''sonnet'') = Inr c
          \<and> getProp ''usage'' c
              = Some (usageObject \<lparr>prompt_tokens = 5, completion_tokens = 2, total_tokens = 7\<rparr>)
          \<and> getProp ''usage'' c = Some (usageObject u)
          \<and> total_tokens u = prompt_tokens u + completion_tokens u"
    by blast
  with n z show ?thesis
    by (simp add: extractUsage_def resultMessage_def)
qed

lemma blockCalls_append:
  "blockCalls gen k (xs @ ys) =
     blockCalls gen k xs
       @ blockCalls gen (k + length (filter (\<lambda>b. \<not> truthy (block_id b)) xs)) ys"
  by (induction xs arbitrary: k) (simp_all add: Let_def)

lemma extractedCalls_blocks:
  "extractedCalls gen k evs = blockCalls gen k (toolUseBlocks evs)"
proof (induction evs arbitrary: k)
  case Nil
  show ?case by (simp add: toolUseBlocks_def)
next
  case (Cons m ms)
  show ?case
  proof (cases "isAssistantMessage m")
    case True
    then have "toolUseBlocks (m # ms) = filter isToolUseBlock (blocksOf m) @ toolUseBlocks ms"
      by (simp add: toolUseBlocks_def)
    with True show ?thesis
      by (simp add: extractContent_eq blockCalls_append Cons.IH)
  next
    case False
    then have "toolUseBlocks (m # ms) = toolUseBlocks ms"
      by (simp add: toolUseBlocks_def)
    with False show ?thesis by (simp add: Cons.IH)
  qed
qed

lemma blockCalls_nth:
  assumes "j < length bs"
  shows "fn_name (tc_function (blockCalls gen k bs ! j)) = the (block_name (bs ! j))"
    and "fn_arguments (tc_function (blockCalls gen k bs ! j)) =
           (case block_input (bs ! j) of
              None \<Rightarrow> ''{}''
            | Some v \<Rightarrow> if jsTruthy v then JSON_stringify v else ''{}'')"
    and "tc_type (blockCalls gen k bs ! j) = ''function''"
proof -
  from assms have j: "j < length (blockCalls gen k bs)"
    by (simp add: length_blockCalls)
  have "map (\<lambda>tc. fn_name (tc_function tc)) (blockCalls gen k bs) ! j
      = map (\<lambda>b. the (block_name b)) bs ! j"
    by (simp only: blockCalls_names)
  with assms j show "fn_name (tc_function (blockCalls gen k bs ! j)) = the (block_name (bs ! j))"
    by simp
  have "map (\<lambda>tc. fn_arguments (tc_function tc)) (blockCalls gen k bs) ! j
      = map (\<lambda>b. case block_input b of
                None \<Rightarrow> ''{}''
              | Some v \<Rightarrow> if jsTruthy v then JSON_stringify v else ''{}'') bs ! j"
    by (simp only: blockCalls_arguments)
  with assms j show "fn_arguments (tc_function (blockCalls gen k bs ! j)) =
           (case block_input (bs ! j) of
              None \<Rightarrow> ''{}''
            | Some v \<Rightarrow> if jsTruthy v then JSON_stringify v else ''{}'')"
    by simp
  have "map tc_type (blockCalls gen k bs) ! j = map (\<lambda>b. ''function'') bs ! j"
    by (simp only: blockCalls_types)
  with assms j show "tc_type (blockCalls gen k bs ! j) = ''function''"
    by simp
qed

lemma find_first_position:
  "j < length xs \<Longrightarrow> P (xs ! j) \<Longrightarrow> \<forall>j' < j. \<not> P (xs ! j') \<Longrightarrow> find P xs = Some (xs ! j)"
proof (induction xs arbitrary: j)
  case Nil
  then show ?case by simp
next
  case (Cons x xs)
  show ?case
  proof (cases j)
    case 0
    with Cons.prems show ?thesis by simp
  next
    case (Suc i)
    with Cons.prems have "\<not> P x" by auto
    moreover from Suc Cons.prems have "i < length xs" "P (xs ! i)" by simp_all
    moreover from Suc Cons.prems have "\<forall>j' < i. \<not> P (xs ! j')" by auto
    ultimately show ?thesis using Suc Cons.IH by simp
  qed
qed

lemma handleNonStreamingRequest_tool_calls:
  assumes "backendRun env cp sm = (evs, None)"
  shows "(case handleNonStreamingRequest env cp rm sm of
            Inl error \<Rightarrow> None
          | Inr c \<Rightarrow> completionToolCalls c) =
         (if firstSeen {} (extractedCalls (nanoid env) 1 evs) = [] then None
          else Some (JArr (map toolCallObject
                             (firstSeen {} (extractedCalls (nanoid env) 1 evs)))))"
  using handleNonStreamingRequest_eq [OF assms refl, of rm]
  by (simp add: buildChatCompletion_tool_calls)

text \<open>
  C1, as the code has it. Let the extracted tool calls of a run be those that
  \<open>extractContent\<close> yields from its assistant messages, in arrival order: one for each
  block of kind \<open>tool_use\<close> that has a non-empty name, with the block's name and
  arguments, and with the block's id when that is present and non-empty (a synthesized
  one otherwise). When the backend run ends normally, \<open>handleNonStreamingRequest\<close>
  returns a completion whose tool-call list consists of the extracted tool calls whose id
  does not occur at an earlier position among all extracted tool calls, in arrival order.
  So each id that was extracted, once or more often and in whichever messages, has
  exactly one entry, and that entry is the first extracted tool call with that id. In
  terms of the blocks: every non-empty id that a named tool-use block of the run carries
  has exactly one entry, and when no tool call extracted before the block has that id,
  the entry has the block's id, name and arguments. (The list is left out of the
  completion when it is empty; the extraction starts after the one \<open>nanoid\<close> call that
  made the completion id.)
\<close>

theorem nonstreaming_tool_calls_deduplicated:
  assumes "backendRun env claudePrompt sdkModel = (evs, None)"
    and "all = extractedCalls (nanoid env) 1 evs"
    and "tbs = toolUseBlocks evs"
  shows "\<exists>c calls.
           handleNonStreamingRequest env claudePrompt responseModel sdkModel = Inr c
         \<and> completionToolCalls c =
             (if calls = [] then None else Some (JArr (map toolCallObject calls)))
         \<and> calls = map (\<lambda>j. all ! j)
                      (filter (\<lambda>j. tc_id (all ! j) \<notin> tc_id ` set (take j all)) [0 ..< length all])
         \<and> (\<forall>i \<in> tc_id ` set all.
               length (filter (\<lambda>t. tc_id t = i) calls) = 1
             \<and> find (\<lambda>t. tc_id t = i) calls = find (\<lambda>t. tc_id t = i) all)
         \<and> length all = length tbs
         \<and> (\<forall>j < length tbs.
               fn_name (tc_function (all ! j)) = the (block_name (tbs ! j))
             \<and> fn_arguments (tc_function (all ! j)) =
                 (case block_input (tbs ! j) of
                    None \<Rightarrow> ''{}''
                  | Some v \<Rightarrow> if jsTruthy v then JSON_stringify v else ''{}'')
             \<and> (truthy (block_id (tbs ! j)) \<longrightarrow> tc_id (all ! j) = the (block_id (tbs ! j))))
         \<and> (\<forall>j < length tbs. truthy (block_id (tbs ! j)) \<longrightarrow>
               length (filter (\<lambda>t. tc_id t = the (block_id (tbs ! j))) calls) = 1
             \<and> ((\<forall>j' < j. tc_id (all ! j') \<noteq> the (block_id (tbs ! j))) \<longrightarrow>
                  find (\<lambda>t. tc_id t = the (block_id (tbs ! j))) calls =
                    Some (toolCall (the (block_id (tbs ! j))) (the (block_name (tbs ! j)))
                            (case block_input (tbs ! j) of
                               None \<Rightarrow> ''{}''
                             | Some v \<Rightarrow> if jsTruthy v then JSON_stringify v else ''{}''))))"
proof -
  let ?calls = "firstSeen {} all"
  let ?c = "buildChatCompletion (dateNow env 0) (''chatcmpl-'' @ nanoid env 0) responseModel
              (if filter (\<lambda>t. t \<noteq> []) (map extractedText (filter isAssistantMessage evs)) = []
               then None
               else Some (join (LF @ LF)
                      (filter (\<lambda>t. t \<noteq> []) (map extractedText (filter isAssistantMessage evs)))))
              ?calls
              (case filter isResultMessage evs of
                 [] \<Rightarrow> \<lparr>prompt_tokens = 0, completion_tokens = 0, total_tokens = 0\<rparr>
               | r # rs \<Rightarrow> extractUsage (last (r # rs)))"
  have c: "handleNonStreamingRequest env claudePrompt responseModel sdkModel = Inr ?c"
    using handleNonStreamingRequest_eq [OF assms(1) refl, of responseModel]
    by (simp add: assms(2))
  have once: "\<forall>i \<in> tc_id ` set all.
               length (filter (\<lambda>t. tc_id t = i) ?calls) = 1
             \<and> find (\<lambda>t. tc_id t = i) ?calls = find (\<lambda>t. tc_id t = i) all"
    using firstSeen_once [of _ "{}" all] by simp
  have all: "all = blockCalls (nanoid env) 1 tbs"
    by (simp add: assms(2,3) extractedCalls_blocks)
  have len: "length all = length tbs"
    by (simp add: all length_blockCalls)
  have given: "tc_id (all ! j) = the (block_id (tbs ! j))"
    if "j < length tbs" "truthy (block_id (tbs ! j))" for j
    unfolding all using that by (rule blockCalls_given_ids)
  have block: "fn_name (tc_function (all ! j)) = the (block_name (tbs ! j))
             \<and> fn_arguments (tc_function (all ! j)) =
                 (case block_input (tbs ! j) of
                    None \<Rightarrow> ''{}''
                  | Some v \<Rightarrow> if jsTruthy v then JSON_stringify v else ''{}'')
             \<and> tc_type (all ! j) = ''function''"
    if "j < length tbs" for j
    unfolding all using blockCalls_nth [OF that] by simp
  have entry: "length (filter (\<lambda>t. tc_id t = the (block_id (tbs ! j))) ?calls) = 1
             \<and> ((\<forall>j' < j. tc_id (all ! j') \<noteq> the (block_id (tbs ! j))) \<longrightarrow>
                  find (\<lambda>t. tc_id t = the (block_id (tbs ! j))) ?calls =
                    Some (toolCall (the (block_id (tbs ! j))) (the (block_name (tbs ! j)))
                            (case block_input (tbs ! j) of
                               None \<Rightarrow> ''{}''
                             | Some v \<Rightarrow> if jsTruthy v then JSON_stringify v else ''{}'')))"
    if j: "j < length tbs" and t: "truthy (block_id (tbs ! j))" for j
  proof -
    let ?i = "the (block_id (tbs ! j))"
    from j len have ja: "j < length all" by simp
    have id: "tc_id (all ! j) = ?i"
      using j t by (rule given)
    with ja have mem: "?i \<in> tc_id ` set all"
      by (metis imageI nth_mem)
    have shape: "all ! j = toolCall ?i (the (block_name (tbs ! j)))
                            (case block_input (tbs ! j) of
                               None \<Rightarrow> ''{}''
                             | Some v \<Rightarrow> if jsTruthy v then JSON_stringify v else ''{}'')"
      using block [OF j] id by (simp add: toolCall_def)
    have "find (\<lambda>t. tc_id t = ?i) all = Some (all ! j)"
      if "\<forall>j' < j. tc_id (all ! j') \<noteq> ?i"
      using ja id that by (rule find_first_position)
    then have first: "find (\<lambda>t. tc_id t = ?i) all =
        Some (toolCall ?i (the (block_name (tbs ! j)))
                (case block_input (tbs ! j) of
                   None \<Rightarrow> ''{}''
                 | Some v \<Rightarrow> if jsTruthy v then JSON_stringify v else ''{}''))"
      if "\<forall>j' < j. tc_id (all ! j') \<noteq> ?i"
      using that shape by simp
    from once mem have one: "length (filter (\<lambda>t. tc_id t = ?i) ?calls) = 1"
      and same: "find (\<lambda>t. tc_id t = ?i) ?calls = find (\<lambda>t. tc_id t = ?i) all"
      by blast+
    show ?thesis
    proof (intro conjI impI)
      show "length (filter (\<lambda>t. tc_id t = ?i) ?calls) = 1"
        by (rule one)
    next
      assume "\<forall>j' < j. tc_id (all ! j') \<noteq> ?i"
      then show "find (\<lambda>t. tc_id t = ?i) ?calls =
        Some (toolCall ?i (the (block_name (tbs ! j)))
                (case block_input (tbs ! j) of
                   None \<Rightarrow> ''{}''
                 | Some v \<Rightarrow> if jsTruthy v then JSON_stringify v else ''{}''))"
        unfolding same by (rule first)
    qed
  qed
  show ?thesis
  proof (intro exI conjI)
    show "handleNonStreamingRequest env claudePrompt responseModel sdkModel = Inr ?c"
      by (rule c)
    show "completionToolCalls ?c =
             (if ?calls = [] then None else Some (JArr (map toolCallObject ?calls)))"
      by (rule buildChatCompletion_tool_calls)
    show "?calls = map (\<lambda>j. all ! j)
                      (filter (\<lambda>j. tc_id (all ! j) \<notin> tc_id ` set (take j all)) [0 ..< length all])"
      by (rule firstSeen_positions)
    show "\<forall>i \<in> tc_id ` set all.
               length (filter (\<lambda>t. tc_id t = i) ?calls) = 1
             \<and> find (\<lambda>t. tc_id t = i) ?calls = find (\<lambda>t. tc_id t = i) all"
      by (rule once)
    show "length all = length tbs"
      by (rule len)
    show "\<forall>j < length tbs.
               fn_name (tc_function (all ! j)) = the (block_name (tbs ! j))
             \<and> fn_arguments (tc_function (all ! j)) =
                 (case block_input (tbs ! j) of
                    None \<Rightarrow> ''{}''
                  | Some v \<Rightarrow> if jsTruthy v then JSON_stringify v else ''{}'')
             \<and> (truthy (block_id (tbs ! j)) \<longrightarrow> tc_id (all ! j) = the (block_id (tbs ! j)))"
      using block given by simp
    show "\<forall>j < length tbs. truthy (block_id (tbs ! j)) \<longrightarrow>
               length (filter (\<lambda>t. tc_id t = the (block_id (tbs ! j))) ?calls) = 1
             \<and> ((\<forall>j' < j. tc_id (all ! j') \<noteq> the (block_id (tbs ! j))) \<longrightarrow>
                  find (\<lambda>t. tc_id t = the (block_id (tbs ! j))) ?calls =
                    Some (toolCall (the (block_id (tbs ! j))) (the (block_name (tbs ! j)))
                            (case block_input (tbs ! j) of
                               None \<Rightarrow> ''{}''
                             | Some v \<Rightarrow> if jsTruthy v then JSON_stringify v else ''{}'')))"
      using entry by blast
  qed
qed

text \<open>
  The theorem at a run of three assistant messages whose first and third carry the same
  tool-call id with different names and inputs: the one entry with that id has the name
  and the arguments of the first.
\<close>

theorem nonstreaming_tool_calls_deduplicated_witness:
  "backendRun
       (exampleEnv ([assistantMessage [(toolUseBlock (Some ''toolu_1'') ''get_weather'')
                                          \<lparr>block_input := Some (JObj [(''n'', JNum 1)])\<rparr>],
                     assistantMessage [toolUseBlock (Some ''toolu_2'') ''now''],
                     assistantMessage [(toolUseBlock (Some ''toolu_1'') ''get_time'')
                                          \<lparr>block_input := Some (JObj [(''n'', JNum 2)])\<rparr>]],
                    None))
       \<lparr>prompt = ''Hi'', systemPrompt = None\<rparr> (ModelName ''sonnet'')
     = ([assistantMessage [(toolUseBlock (Some ''toolu_1'') ''get_weather'')
                              \<lparr>block_input := Some (JObj [(''n'', JNum 1)])\<rparr>],
         assistantMessage [toolUseBlock (Some ''toolu_2'') ''now''],
         assistantMessage [(toolUseBlock (Some ''toolu_1'') ''get_time'')
                              \<lparr>block_input := Some (JObj [(''n'', JNum 2)])\<rparr>]], None)
   \<and> toolUseBlocks
        [assistantMessage [(toolUseBlock (Some ''toolu_1'') ''get_weather'')
                              \<lparr>block_input := Some (JObj [(''n'', JNum 1)])\<rparr>],
         assistantMessage [toolUseBlock (Some ''toolu_2'') ''now''],
         assistantMessage [(toolUseBlock (Some ''toolu_1'') ''get_time'')
                              \<lparr>block_input := Some (JObj [(''n'', JNum 2)])\<rparr>]]
     = [(toolUseBlock (Some ''toolu_1'') ''get_weather'')
           \<lparr>block_input := Some (JObj [(''n'', JNum 1)])\<rparr>,
        toolUseBlock (Some ''toolu_2'') ''now'',
        (toolUseBlock (Some ''toolu_1'') ''get_time'')
           \<lparr>block_input := Some (JObj [(''n'', JNum 2)])\<rparr>]
   \<and> extractedCalls decimal 1
        [assistantMessage [(toolUseBlock (Some ''toolu_1'') ''get_weather'')
                              \<lparr>block_input := Some (JObj [(''n'', JNum 1)])\<rparr>],
         assistantMessage [toolUseBlock (Some ''toolu_2'') ''now''],
         assistantMessage [(toolUseBlock (Some ''toolu_1'') ''get_time'')
                              \<lparr>block_input := Some (JObj [(''n'', JNum 2)])\<rparr>]]
     = [toolCall ''toolu_1'' ''get_weather'' (''{'' @ [CHR 0x22] @ ''n'' @ [CHR 0x22] @ '':1}''),
        toolCall ''toolu_2'' ''now'' ''{}'',
        toolCall ''toolu_1'' ''get_time'' (''{'' @ [CHR 0x22] @ ''n'' @ [CHR 0x22] @ '':2}'')]
   \<and> (\<exists>c. handleNonStreamingRequest
            (exampleEnv ([assistantMessage [(toolUseBlock (Some ''toolu_1'') ''get_weather'')
                                               \<lparr>block_input := Some (JObj [(''n'', JNum 1)])\<rparr>],
                          assistantMessage [toolUseBlock (Some ''toolu_2'') ''now''],
                          assistantMessage [(toolUseBlock (Some ''toolu_1'') ''get_time'')
                                               \<lparr>block_input := Some (JObj [(''n'', JNum 2)])\<rparr>]],
                         None))
            \<lparr>prompt = ''Hi'', systemPrompt = None\<rparr> ''claude-sonnet-4-5'' (ModelName ''sonnet'') = Inr c
          \<and> completionToolCalls c =
              Some (JArr [toolCallObject
                            (toolCall ''toolu_1'' ''get_weather''
                               (''{'' @ [CHR 0x22] @ ''n'' @ [CHR 0x22] @ '':1}'')),
                          toolCallObject (toolCall ''toolu_2'' ''now'' ''{}'')]))"
proof -
  let ?a = "(toolUseBlock (Some ''toolu_1'') ''get_weather'')
              \<lparr>block_input := Some (JObj [(''n'', JNum 1)])\<rparr>"
  let ?b = "toolUseBlock (Some ''toolu_2'') ''now''"
  let ?d = "(toolUseBlock (Some ''toolu_1'') ''get_time'')
              \<lparr>block_input := Some (JObj [(''n'', JNum 2)])\<rparr>"
  let ?evs = "[assistantMessage [?a], assistantMessage [?b], assistantMessage [?d]]"
  let ?env = "exampleEnv (?evs, None)"
  let ?cp = "\<lparr>prompt = ''Hi'', systemPrompt = None\<rparr>"
  let ?all = "[toolCall ''toolu_1'' ''get_weather''
                 (''{'' @ [CHR 0x22] @ ''n'' @ [CHR 0x22] @ '':1}''),
               toolCall ''toolu_2'' ''now'' ''{}'',
               toolCall ''toolu_1'' ''get_time''
                 (''{'' @ [CHR 0x22] @ ''n'' @ [CHR 0x22] @ '':2}'')]"
  have run: "backendRun ?env ?cp (ModelName ''sonnet'') = (?evs, None)"
    by (simp add: backendRun_def queryClaudeAgent_def exampleEnv_def)
  have tbs: "toolUseBlocks ?evs = [?a, ?b, ?d]"
    by (simp add: toolUseBlocks_def ex_defs isAssistantMessage_def)
  have all: "extractedCalls decimal 1 ?evs = ?all"
    by (simp add: ex_defs run_defs isAssistantMessage_def toolCall_def)
  have gen: "nanoid ?env = decimal"
    by (simp add: exampleEnv_def)
  have kept: "map (\<lambda>j. ?all ! j)
                (filter (\<lambda>j. tc_id (?all ! j) \<notin> tc_id ` set (take j ?all)) [0 ..< length ?all])
              = [toolCall ''toolu_1'' ''get_weather''
                   (''{'' @ [CHR 0x22] @ ''n'' @ [CHR 0x22] @ '':1}''),
                 toolCall ''toolu_2'' ''now'' ''{}'']"
    by (simp add: toolCall_def)
  from nonstreaming_tool_calls_deduplicated
         [OF run all [symmetric, folded gen] tbs [symmetric], of "''claude-sonnet-4-5''"]
  obtain c calls where
    "handleNonStreamingRequest ?env ?cp ''claude-sonnet-4-5'' (ModelName ''sonnet'') = Inr c"
    "completionToolCalls c = (if calls = [] then None else Some (JArr (map toolCallObject calls)))"
    "calls = map (\<lambda>j. ?all ! j)
                (filter (\<lambda>j. tc_id (?all ! j) \<notin> tc_id ` set (take j ?all)) [0 ..< length ?all])"
    by blast
  then have "\<exists>c. handleNonStreamingRequest ?env ?cp ''claude-sonnet-4-5'' (ModelName ''sonnet'') = Inr c
          \<and> completionToolCalls c =
              Some (JArr [toolCallObject
                            (toolCall ''toolu_1'' ''get_weather''
                               (''{'' @ [CHR 0x22] @ ''n'' @ [CHR 0x22] @ '':1}'')),
                          toolCallObject (toolCall ''toolu_2'' ''now'' ''{}'')])"
    unfolding kept by simp
  with run all tbs show ?thesis by simp
qed

text \<open>
  C1 as stated fails. In the first run the id \<open>toolu_1\<close> occurs in both assistant
  messages, first on a tool-use block with input \<open>{"n":1}\<close> and no name, then on one with
  name \<open>second\<close> and input \<open>{"n":2}\<close>: the block without a name is skipped, and the one
  entry with that id has the name and the arguments of the second occurrence. In the
  second run both assistant messages carry the same id, the empty string, on named
  tool-use blocks: each gets a synthesized id of its own, so there are two entries and
  none with that id.
\<close>

theorem nonstreaming_unnamed_first_occurrence:
  "(case handleNonStreamingRequest
           (exampleEnv
              ([assistantMessage [(contentBlock ''tool_use'')
                                     \<lparr>block_id := Some ''toolu_1'',
                                      block_input := Some (JObj [(''n'', JNum 1)])\<rparr>],
                assistantMessage [(toolUseBlock (Some ''toolu_1'') ''second'')
                                     \<lparr>block_input := Some (JObj [(''n'', JNum 2)])\<rparr>]], None))
           \<lparr>prompt = ''Hi'', systemPrompt = None\<rparr> ''claude-sonnet-4-5'' (ModelName ''sonnet'') of
      Inl error \<Rightarrow> None
    | Inr c \<Rightarrow> completionToolCalls c)
     = Some (JArr [toolCallObject
                     (toolCall ''toolu_1'' ''second''
                        (''{'' @ [CHR 0x22] @ ''n'' @ [CHR 0x22] @ '':2}''))])
   \<and> (case handleNonStreamingRequest
           (exampleEnv
              ([assistantMessage [toolUseBlock (Some []) ''now''],
                assistantMessage [toolUseBlock (Some []) ''now'']], None))
           \<lparr>prompt = ''Hi'', systemPrompt = None\<rparr> ''claude-sonnet-4-5'' (ModelName ''sonnet'') of
      Inl error \<Rightarrow> None
    | Inr c \<Rightarrow> completionToolCalls c)
     = Some (JArr [toolCallObject (toolCall ''call_1'' ''now'' ''{}''),
                   toolCallObject (toolCall ''call_2'' ''now'' ''{}'')])"
proof -
  let ?cp = "\<lparr>prompt = ''Hi'', systemPrompt = None\<rparr>"
  let ?evs1 = "[assistantMessage [(contentBlock ''tool_use'')
                                     \<lparr>block_id := Some ''toolu_1'',
                                      block_input := Some (JObj [(''n'', JNum 1)])\<rparr>],
                assistantMessage [(toolUseBlock (Some ''toolu_1'') ''second'')
                                     \<lparr>block_input := Some (JObj [(''n'', JNum 2)])\<rparr>]]"
  let ?evs2 = "[assistantMessage [toolUseBlock (Some []) ''now''],
                assistantMessage [toolUseBlock (Some []) ''now'']]"
  have run1: "backendRun (exampleEnv (?evs1, None)) ?cp (ModelName ''sonnet'') = (?evs1, None)"
    by (simp add: backendRun_def queryClaudeAgent_def exampleEnv_def)
  have run2: "backendRun (exampleEnv (?evs2, None)) ?cp (ModelName ''sonnet'') = (?evs2, None)"
    by (simp add: backendRun_def queryClaudeAgent_def exampleEnv_def)
  have calls1: "firstSeen {} (extractedCalls (nanoid (exampleEnv (?evs1, None))) 1 ?evs1) =
      [toolCall ''toolu_1'' ''second'' (''{'' @ [CHR 0x22] @ ''n'' @ [CHR 0x22] @ '':2}'')]"
    by (simp add: ex_defs run_defs isAssistantMessage_def toolCall_def exampleEnv_def)
  have calls2: "firstSeen {} (extractedCalls (nanoid (exampleEnv (?evs2, None))) 1 ?evs2) =
      [toolCall ''call_1'' ''now'' ''{}'', toolCall ''call_2'' ''now'' ''{}'']"
    by (simp add: ex_defs run_defs isAssistantMessage_def toolCall_def exampleEnv_def)
  show ?thesis
    unfolding handleNonStreamingRequest_tool_calls [OF run1]
      handleNonStreamingRequest_tool_calls [OF run2] calls1 calls2
    by simp
qed

text \<open>
  C9. When the backend run ends normally, the content of the completion's message is the
  non-empty texts extracted from the assistant messages, joined by two line feeds; when
  there is no such text it is \<open>null\<close>, and it is never the empty string. The finish reason
  is \<open>tool_calls\<close> exactly when a tool call was extracted, which is exactly when the
  message carries a tool-call list, and \<open>stop\<close> otherwise.
\<close>

theorem nonstreaming_content_and_finish_reason:
  assumes "backendRun env claudePrompt sdkModel = (evs, None)"
    and "parts = filter (\<lambda>t. t \<noteq> []) (map extractedText (filter isAssistantMessage evs))"
    and "all = extractedCalls (nanoid env) 1 evs"
  shows "\<exists>c. handleNonStreamingRequest env claudePrompt responseModel sdkModel = Inr c
         \<and> completionContent c =
             Some (if parts = [] then JNull else JStr (join (LF @ LF) parts))
         \<and> completionContent c \<noteq> Some (JStr [])
         \<and> completionFinishReason c =
             Some (JStr (if all = [] then ''stop'' else ''tool_calls''))
         \<and> (completionToolCalls c = None \<longleftrightarrow> all = [])"
proof -
  let ?c = "buildChatCompletion (dateNow env 0) (''chatcmpl-'' @ nanoid env 0) responseModel
              (if parts = [] then None else Some (join (LF @ LF) parts))
              (firstSeen {} all)
              (case filter isResultMessage evs of
                 [] \<Rightarrow> \<lparr>prompt_tokens = 0, completion_tokens = 0, total_tokens = 0\<rparr>
               | r # rs \<Rightarrow> extractUsage (last (r # rs)))"
  have c: "handleNonStreamingRequest env claudePrompt responseModel sdkModel = Inr ?c"
    using handleNonStreamingRequest_eq [OF assms(1) assms(2), of responseModel]
    by (simp add: assms(3))
  have "\<forall>x \<in> set parts. x \<noteq> []"
    by (simp add: assms(2))
  then have ne: "parts \<noteq> [] \<Longrightarrow> join (LF @ LF) parts \<noteq> []"
    by (rule join_not_empty [rotated])
  have content: "completionContent ?c =
             Some (if parts = [] then JNull else JStr (join (LF @ LF) parts))"
    by (simp add: buildChatCompletion_content)
  show ?thesis
  proof (intro exI conjI)
    show "handleNonStreamingRequest env claudePrompt responseModel sdkModel = Inr ?c"
      by (rule c)
    show "completionContent ?c =
             Some (if parts = [] then JNull else JStr (join (LF @ LF) parts))"
      by (rule content)
    show "completionContent ?c \<noteq> Some (JStr [])"
      unfolding content using ne by simp
    show "completionFinishReason ?c =
             Some (JStr (if all = [] then ''stop'' else ''tool_calls''))"
      by (simp add: buildChatCompletion_finish_reason firstSeen_empty_iff)
    show "completionToolCalls ?c = None \<longleftrightarrow> all = []"
      by (simp add: buildChatCompletion_tool_calls firstSeen_empty_iff)
  qed
qed

text \<open>
  The theorem at a run of two assistant messages with text, the second also with a tool
  call, and a result message.
\<close>

theorem nonstreaming_content_and_finish_reason_witness:
  "backendRun
       (exampleEnv ([assistantMessage [textBlock ''Hello''],
                     assistantMessage [textBlock ''World'',
                                       toolUseBlock (Some ''toolu_1'') ''get_weather''],
                     resultMessage (Some \<lparr>input_tokens = Some 5, output_tokens = Some 2\<rparr>)],
                    None))
       \<lparr>prompt = ''Hi'', systemPrompt = None\<rparr> (ModelName ''sonnet'')
     = ([assistantMessage [textBlock ''Hello''],
         assistantMessage [textBlock ''World'', toolUseBlock (Some ''toolu_1'') ''get_weather''],
         resultMessage (Some \<lparr>input_tokens = Some 5, output_tokens = Some 2\<rparr>)], None)
   \<and> (\<exists>c. handleNonStreamingRequest
            (exampleEnv ([assistantMessage [textBlock ''Hello''],
                          assistantMessage [textBlock ''World'',
                                            toolUseBlock (Some ''toolu_1'') ''get_weather''],
                          resultMessage
                            (Some \<lparr>input_tokens = Some 5, output_tokens = Some 2\<rparr>)],
                         None))
            \<lparr>prompt = ''Hi'', systemPrompt = None\<rparr> ''claude-sonnet-4-5'' (ModelName ''sonnet'') = Inr c
          \<and> completionContent c = Some (JStr (''Hello'' @ LF @ LF @ ''World''))
          \<and> completionFinishReason c = Some (JStr ''tool_calls''))"
proof -
  let ?evs = "[assistantMessage [textBlock ''Hello''],
               assistantMessage [textBlock ''World'',
                                 toolUseBlock (Some ''toolu_1'') ''get_weather''],
               resultMessage (Some \<lparr>input_tokens = Some 5, output_tokens = Some 2\<rparr>)]"
  let ?env = "exampleEnv (?evs, None)"
  let ?cp = "\<lparr>prompt = ''Hi'', systemPrompt = None\<rparr>"
  have run: "backendRun ?env ?cp (ModelName ''sonnet'') = (?evs, None)"
    by (simp add: backendRun_def queryClaudeAgent_def exampleEnv_def)
  have parts: "filter (\<lambda>t. t \<noteq> []) (map extractedText (filter isAssistantMessage ?evs))
      = [''Hello'', ''World'']"
    by (simp add: ex_defs run_defs isAssistantMessage_def extractedText_def)
  have all: "extractedCalls (nanoid ?env) 1 ?evs = [toolCall ''toolu_1'' ''get_weather'' ''{}'']"
    by (simp add: ex_defs run_defs isAssistantMessage_def toolCall_def exampleEnv_def)
  from nonstreaming_content_and_finish_reason
         [OF run parts [symmetric] all [symmetric], of "''claude-sonnet-4-5''"]
  have "\<exists>c. handleNonStreamingRequest ?env ?cp ''claude-sonnet-4-5'' (ModelName ''sonnet'') = Inr c
          \<and> completionContent c = Some (JStr (''Hello'' @ LF @ LF @ ''World''))
          \<and> completionFinishReason c = Some (JStr ''tool_calls'')"
    by auto
  with run show ?thesis by simp
qed

section \<open>Streaming\<close>

lemma sendChunk_written: "written (sendChunk r v) = written r @ [chunkFrame v]"
  by (simp add: sendChunk_def res_write_def chunkFrame_def LF_def)

lemma sendChunk_ended: "ended (sendChunk r v) = ended r"
  by (simp add: sendChunk_def res_write_def)

lemma sendDone_written: "written (sendDone r) = written r @ [doneFrame]"
  by (simp add: sendDone_def res_write_def doneFrame_def LF_def)

lemma sendError_written: "written (sendError r m) = written r @ [errorFrame m]"
  by (simp add: sendError_def res_write_def errorFrame_def chunkFrame_def LF_def)

lemma join_Cons: "join sep (x # xs) = x @ (if xs = [] then [] else sep @ join sep xs)"
  by (cases xs) simp_all

lemma id_first_not_error: "\<not> isErrorFrame (chunkFrame (JObj ((''id'', v) # rest)))"
  by (simp add: isErrorFrame_def chunkFrame_def join_Cons quoteJSONString_def escapeChar_def)

lemma errorFrame_is_error: "isErrorFrame (errorFrame m)"
  by (simp add: isErrorFrame_def errorFrame_def chunkFrame_def join_Cons quoteJSONString_def
      escapeChar_def)

lemma chunks_not_error:
  "\<not> isErrorFrame (chunkFrame (buildInitialChunk t cid m))"
  "\<not> isErrorFrame (chunkFrame (buildContentChunk t cid m c))"
  "\<not> isErrorFrame (chunkFrame (buildToolCallChunk t cid m tcs i))"
  "\<not> isErrorFrame (chunkFrame (buildFinalChunk t cid m h))"
  unfolding buildInitialChunk_def buildContentChunk_def buildToolCallChunk_def
    buildFinalChunk_def Let_def
  by (rule id_first_not_error)+

lemma streamMessage_written:
  "\<exists>fs. written (res (streamMessage env cid rm st m)) = written (res st) @ fs
        \<and> filter isErrorFrame fs = []
        \<and> ended (res (streamMessage env cid rm st m)) = ended (res st)"
proof -
  obtain r k where e: "extractContent (nanoid env) m (s_nanoidCalls st) = (r, k)"
    by (cases "extractContent (nanoid env) m (s_nanoidCalls st)")
  show ?thesis
    by (simp add: streamMessage_def e Let_def sendChunk_written sendChunk_ended chunks_not_error)
qed

lemma foldl_streamMessage_written:
  "\<exists>fs. written (res (foldl (streamMessage env cid rm) st evs)) = written (res st) @ fs
        \<and> filter isErrorFrame fs = []
        \<and> ended (res (foldl (streamMessage env cid rm) st evs)) = ended (res st)"
proof (induction evs arbitrary: st)
  case Nil
  show ?case by simp
next
  case (Cons m evs)
  from streamMessage_written [of env cid rm st m] obtain fs where
    1: "written (res (streamMessage env cid rm st m)) = written (res st) @ fs"
      "filter isErrorFrame fs = []"
      "ended (res (streamMessage env cid rm st m)) = ended (res st)"
    by blast
  from Cons.IH [of "streamMessage env cid rm st m"] obtain gs where
    2: "written (res (foldl (streamMessage env cid rm) (streamMessage env cid rm st m) evs))
          = written (res (streamMessage env cid rm st m)) @ gs"
      "filter isErrorFrame gs = []"
      "ended (res (foldl (streamMessage env cid rm) (streamMessage env cid rm st m) evs))
          = ended (res (streamMessage env cid rm st m))"
    by blast
  show ?case
  proof (intro exI conjI)
    show "written (res (foldl (streamMessage env cid rm) st (m # evs)))
            = written (res st) @ (fs @ gs)"
      by (simp add: 1 2)
    show "filter isErrorFrame (fs @ gs) = []"
      by (simp add: 1 2)
    show "ended (res (foldl (streamMessage env cid rm) st (m # evs))) = ended (res st)"
      by (simp add: 1 2)
  qed
qed


lemma setupSSE_written: "written (setupSSE r) = written r"
  by (simp add: setupSSE_def setHeader_def)

lemma handleStreamingRequest_eq:
  assumes "backendRun env claudePrompt sdkModel = (evs, fin)"
    and "cid = ''chatcmpl-'' @ nanoid env 0"
    and "st0 = \<lparr>res = sendChunk (setupSSE res0)
                         (buildInitialChunk (dateNow env 0) cid responseModel),
                 hasToolCalls = False, sentToolCallIds = {},
                 s_nanoidCalls = 1, s_clockReads = 1\<rparr>"
    and "st = foldl (streamMessage env cid responseModel) st0 evs"
  shows "handleStreamingRequest env res0 claudePrompt responseModel sdkModel =
     res_end
       (case fin of
          None \<Rightarrow>
            sendDone (sendChunk (res st)
              (buildFinalChunk (dateNow env (s_clockReads st)) cid responseModel
                 (hasToolCalls st)))
        | Some error \<Rightarrow>
            sendDone (sendError (res st)
              (if instanceofError error then errorMessage error else ''Stream error'')))"
  using assms(1)
  by (simp add: handleStreamingRequest_def backendRun_def generateCompletionId_def Let_def
      assms(2,3,4) split: option.splits)

lemmas stream_defs = handleStreamingRequest_def streamMessage_def isAssistantMessage_def
  queryClaudeAgent_def backendRun_def exampleEnv_def generateCompletionId_def
  mapPermissionMode_def newResponse_def res_end_def sendDone_written sendError_written
  sendChunk_written sendChunk_ended setupSSE_written doneFrame_def

text \<open>
  C3. Whatever messages the backend yields and however its run ends, the writes of
  \<open>handleStreamingRequest\<close> end with the terminator \<open>data: [DONE]\<close> followed by two
  line feeds, and the response is ended. When the run ends normally no error frame is
  written. When the run throws, after any number of messages, exactly one error frame is
  written, it is the last write before the terminator, and it carries the message of the
  error (or \<open>Stream error\<close> when the thrown value is not an \<open>Error\<close>) with the type
  \<open>internal_error\<close> and the code \<open>stream_error\<close>.
\<close>

theorem streaming_always_terminated:
  assumes "backendRun env claudePrompt sdkModel = (evs, fin)"
  shows "\<exists>frames.
           written (handleStreamingRequest env res0 claudePrompt responseModel sdkModel)
             = written res0 @ frames @ [''data: [DONE]'' @ [CHR 0x0A, CHR 0x0A]]
         \<and> ended (handleStreamingRequest env res0 claudePrompt responseModel sdkModel)
         \<and> (case fin of
               None \<Rightarrow> filter isErrorFrame frames = []
             | Some error \<Rightarrow>
                 filter isErrorFrame frames =
                   [errorFrame (if instanceofError error then errorMessage error
                                else ''Stream error'')]
                 \<and> last frames =
                     errorFrame (if instanceofError error then errorMessage error
                                 else ''Stream error''))"
proof -
  define cid where "cid = ''chatcmpl-'' @ nanoid env 0"
  define st0 where "st0 = \<lparr>res = sendChunk (setupSSE res0)
                         (buildInitialChunk (dateNow env 0) cid responseModel),
                 hasToolCalls = False, sentToolCallIds = {},
                 s_nanoidCalls = 1, s_clockReads = 1\<rparr>"
  define st where "st = foldl (streamMessage env cid responseModel) st0 evs"
  note h = handleStreamingRequest_eq [OF assms cid_def st0_def st_def]
  from foldl_streamMessage_written [of env cid responseModel st0 evs] obtain fs where
    fs: "written (res st) = written (res st0) @ fs" "filter isErrorFrame fs = []"
    unfolding st_def by blast
  have w0: "written (res st0)
      = written res0 @ [chunkFrame (buildInitialChunk (dateNow env 0) cid responseModel)]"
    by (simp add: st0_def sendChunk_written setupSSE_written)
  let ?initial = "chunkFrame (buildInitialChunk (dateNow env 0) cid responseModel)"
  show ?thesis
  proof (cases fin)
    case None
    let ?final = "chunkFrame (buildFinalChunk (dateNow env (s_clockReads st)) cid responseModel
                    (hasToolCalls st))"
    show ?thesis
    proof (intro exI conjI)
      show "written (handleStreamingRequest env res0 claudePrompt responseModel sdkModel)
             = written res0 @ (?initial # fs @ [?final]) @ [''data: [DONE]'' @ [CHR 0x0A, CHR 0x0A]]"
        by (simp add: h None res_end_def sendDone_written sendChunk_written fs w0 doneFrame_def)
      show "ended (handleStreamingRequest env res0 claudePrompt responseModel sdkModel)"
        by (simp add: h res_end_def)
      show "case fin of
               None \<Rightarrow> filter isErrorFrame (?initial # fs @ [?final]) = []
             | Some error \<Rightarrow>
                 filter isErrorFrame (?initial # fs @ [?final]) =
                   [errorFrame (if instanceofError error then errorMessage error
                                else ''Stream error'')]
                 \<and> last (?initial # fs @ [?final]) =
                     errorFrame (if instanceofError error then errorMessage error
                                 else ''Stream error'')"
        by (simp add: None fs chunks_not_error)
    qed
  next
    case (Some error)
    let ?error = "errorFrame (if instanceofError error then errorMessage error
                              else ''Stream error'')"
    show ?thesis
    proof (intro exI conjI)
      show "written (handleStreamingRequest env res0 claudePrompt responseModel sdkModel)
             = written res0 @ (?initial # fs @ [?error]) @ [''data: [DONE]'' @ [CHR 0x0A, CHR 0x0A]]"
        by (simp add: h Some res_end_def sendDone_written sendError_written fs w0 doneFrame_def)
      show "ended (handleStreamingRequest env res0 claudePrompt responseModel sdkModel)"
        by (simp add: h res_end_def)
      show "case fin of
               None \<Rightarrow> filter isErrorFrame (?initial # fs @ [?error]) = []
             | Some error \<Rightarrow>
                 filter isErrorFrame (?initial # fs @ [?error]) =
                   [errorFrame (if instanceofError error then errorMessage error
                                else ''Stream error'')]
                 \<and> last (?initial # fs @ [?error]) =
                     errorFrame (if instanceofError error then errorMessage error
                                 else ''Stream error'')"
        by (simp add: Some fs chunks_not_error errorFrame_is_error)
    qed
  qed
qed

text \<open>
  The theorem at a run that yields one assistant message with text and then throws.
\<close>

theorem streaming_always_terminated_witness:
  "backendRun
       (exampleEnv ([assistantMessage [textBlock ''Hello'']], Some (JsError ''backend down'')))
       \<lparr>prompt = ''Hi'', systemPrompt = None\<rparr> (ModelName ''sonnet'')
     = ([assistantMessage [textBlock ''Hello'']], Some (JsError ''backend down''))
   \<and> (\<exists>frames.
         written
           (handleStreamingRequest
              (exampleEnv ([assistantMessage [textBlock ''Hello'']],
                           Some (JsError ''backend down'')))
              newResponse \<lparr>prompt = ''Hi'', systemPrompt = None\<rparr> ''claude-sonnet-4-5'' (ModelName ''sonnet''))
           = frames @ [''data: [DONE]'' @ [CHR 0x0A, CHR 0x0A]]
       \<and> filter isErrorFrame frames = [errorFrame ''backend down'']
       \<and> last frames = errorFrame ''backend down'')
   \<and> ended
        (handleStreamingRequest
           (exampleEnv ([assistantMessage [textBlock ''Hello'']],
                        Some (JsError ''backend down'')))
           newResponse \<lparr>prompt = ''Hi'', systemPrompt = None\<rparr> ''claude-sonnet-4-5'' (ModelName ''sonnet''))
   \<and> written
        (handleStreamingRequest
           (exampleEnv ([assistantMessage [textBlock ''Hello'']],
                        Some (JsError ''backend down'')))
           newResponse \<lparr>prompt = ''Hi'', systemPrompt = None\<rparr> ''claude-sonnet-4-5'' (ModelName ''sonnet''))
     = [chunkFrame (buildInitialChunk 0 ''chatcmpl-0'' ''claude-sonnet-4-5''),
        chunkFrame (buildContentChunk 1000 ''chatcmpl-0'' ''claude-sonnet-4-5'' ''Hello''),
        errorFrame ''backend down'',
        ''data: [DONE]'' @ [CHR 0x0A, CHR 0x0A]]"
proof -
  let ?env = "exampleEnv ([assistantMessage [textBlock ''Hello'']],
                          Some (JsError ''backend down''))"
  let ?cp = "\<lparr>prompt = ''Hi'', systemPrompt = None\<rparr>"
  have run: "backendRun ?env ?cp (ModelName ''sonnet'')
      = ([assistantMessage [textBlock ''Hello'']], Some (JsError ''backend down''))"
    by (simp add: backendRun_def queryClaudeAgent_def exampleEnv_def)
  from streaming_always_terminated [OF run, of newResponse "''claude-sonnet-4-5''"]
  have "(\<exists>frames.
         written (handleStreamingRequest ?env newResponse ?cp ''claude-sonnet-4-5'' (ModelName ''sonnet''))
           = frames @ [''data: [DONE]'' @ [CHR 0x0A, CHR 0x0A]]
       \<and> filter isErrorFrame frames = [errorFrame ''backend down'']
       \<and> last frames = errorFrame ''backend down'')
     \<and> ended (handleStreamingRequest ?env newResponse ?cp ''claude-sonnet-4-5'' (ModelName ''sonnet''))"
    by (auto simp: newResponse_def)
  moreover have
    "written (handleStreamingRequest ?env newResponse ?cp ''claude-sonnet-4-5'' (ModelName ''sonnet''))
     = [chunkFrame (buildInitialChunk 0 ''chatcmpl-0'' ''claude-sonnet-4-5''),
        chunkFrame (buildContentChunk 1000 ''chatcmpl-0'' ''claude-sonnet-4-5'' ''Hello''),
        errorFrame ''backend down'',
        ''data: [DONE]'' @ [CHR 0x0A, CHR 0x0A]]"
    by (simp add: stream_defs ex_defs run_defs Let_def)
  ultimately show ?thesis using run by simp
qed

lemma extractContent_oneToolUse:
  assumes "oneToolUseNoText m"
  shows "\<exists>tc k'. extractContent gen m k = (\<lparr>textContent = [], toolCalls = [tc]\<rparr>, k')"
proof -
  from assms have "filter isTextBlock (blocksOf m) = []"
    by (auto simp: oneToolUseNoText_def isTextBlock_def list_all_iff filter_empty_conv)
  moreover from assms have "filter isToolUseBlock (blocksOf m)
      = filter (\<lambda>b. block_type b = ''tool_use'') (blocksOf m)"
    unfolding oneToolUseNoText_def isToolUseBlock_def list_all_iff
    by (intro filter_cong) auto
  moreover from assms obtain b
    where "filter (\<lambda>b. block_type b = ''tool_use'') (blocksOf m) = [b]"
    unfolding oneToolUseNoText_def by (auto simp: length_Suc_conv)
  ultimately show ?thesis
    by (simp add: extractContent_eq Let_def)
qed

lemma streamMessage_not_assistant:
  "\<not> isAssistantMessage m \<Longrightarrow> streamMessage env cid rm st m = st"
  by (simp add: streamMessage_def)

lemma streamMessage_one_new:
  assumes "isAssistantMessage m"
    and "extractContent (nanoid env) m (s_nanoidCalls st) = (\<lparr>textContent = [], toolCalls = [tc]\<rparr>, k)"
    and "tc_id tc \<notin> sentToolCallIds st"
  shows "written (res (streamMessage env cid rm st m)) =
           written (res st)
             @ [chunkFrame (buildToolCallChunk (dateNow env (s_clockReads st)) cid rm [tc] True)]
       \<and> s_clockReads (streamMessage env cid rm st m) = Suc (s_clockReads st)
       \<and> hasToolCalls (streamMessage env cid rm st m)
       \<and> sentToolCallIds (streamMessage env cid rm st m) = insert (tc_id tc) (sentToolCallIds st)
       \<and> s_nanoidCalls (streamMessage env cid rm st m) = k"
  using assms by (simp add: streamMessage_def Let_def sendChunk_written)

lemma foldl_streamMessage_fresh:
  assumes "\<forall>m \<in> set evs. isAssistantMessage m \<longrightarrow> oneToolUseNoText m"
    and "distinct (map tc_id (extractedCalls (nanoid env) (s_nanoidCalls st) evs))"
    and "tc_id ` set (extractedCalls (nanoid env) (s_nanoidCalls st) evs) \<inter> sentToolCallIds st = {}"
  shows "written (res (foldl (streamMessage env cid rm) st evs)) =
           written (res st)
             @ map (\<lambda>(j, tc). chunkFrame
                      (buildToolCallChunk (dateNow env (s_clockReads st + j)) cid rm [tc] True))
                 (enumerate 0 (extractedCalls (nanoid env) (s_nanoidCalls st) evs))
       \<and> s_clockReads (foldl (streamMessage env cid rm) st evs) =
           s_clockReads st + length (filter isAssistantMessage evs)
       \<and> hasToolCalls (foldl (streamMessage env cid rm) st evs) =
           (hasToolCalls st \<or> filter isAssistantMessage evs \<noteq> [])
       \<and> length (extractedCalls (nanoid env) (s_nanoidCalls st) evs) =
           length (filter isAssistantMessage evs)"
  using assms
proof (induction evs arbitrary: st)
  case Nil
  show ?case by (simp add: enumerate_simps)
next
  case (Cons m evs)
  show ?case
  proof (cases "isAssistantMessage m")
    case False
    with Cons.prems Cons.IH [of st] show ?thesis
      by (simp add: streamMessage_not_assistant)
  next
    case True
    with Cons.prems(1) have "oneToolUseNoText m" by simp
    from extractContent_oneToolUse [OF this, of "nanoid env" "s_nanoidCalls st"]
    obtain tc k where
      e: "extractContent (nanoid env) m (s_nanoidCalls st) = (\<lparr>textContent = [], toolCalls = [tc]\<rparr>, k)"
      by blast
    let ?st = "streamMessage env cid rm st m"
    let ?rest = "extractedCalls (nanoid env) k evs"
    have all: "extractedCalls (nanoid env) (s_nanoidCalls st) (m # evs) = tc # ?rest"
      using True e by simp
    from Cons.prems(3) have new: "tc_id tc \<notin> sentToolCallIds st"
      unfolding all by auto
    note step = streamMessage_one_new [OF True e new, of cid rm]
    from step have k: "s_nanoidCalls ?st = k" by simp
    have 1: "\<forall>m \<in> set evs. isAssistantMessage m \<longrightarrow> oneToolUseNoText m"
      using Cons.prems(1) by simp
    have 2: "distinct (map tc_id (extractedCalls (nanoid env) (s_nanoidCalls ?st) evs))"
      using Cons.prems(2) unfolding all k by simp
    have 3: "tc_id ` set (extractedCalls (nanoid env) (s_nanoidCalls ?st) evs)
               \<inter> sentToolCallIds ?st = {}"
      using Cons.prems(2,3) step unfolding all k by auto
    note ih = Cons.IH [OF 1 2 3, unfolded k]
    have shift: "map (\<lambda>(j, tc). chunkFrame
                      (buildToolCallChunk (dateNow env (s_clockReads st + j)) cid rm [tc] True))
                   (enumerate (Suc 0) ?rest)
               = map (\<lambda>(j, tc). chunkFrame
                      (buildToolCallChunk (dateNow env (Suc (s_clockReads st) + j)) cid rm [tc] True))
                   (enumerate 0 ?rest)"
      by (simp add: enumerate_Suc_eq [of 0] map_prod_def case_prod_unfold comp_def)
    show ?thesis
      unfolding all
      using True ih step shift
      by (simp add: enumerate_simps)
  qed
qed


lemma map_enumerate_nth:
  "map (\<lambda>(j, x). F j x) (enumerate 0 xs) = map (\<lambda>j. F j (xs ! j)) [0 ..< length xs]"
  by (rule nth_equalityI) (simp_all add: nth_enumerate_eq)

text \<open>
  C2, as the code has it. Let the backend run end normally, let each of its \<open>n\<close>
  assistant messages have exactly one block of kind \<open>tool_use\<close>, that block with a
  non-empty tool name, and no block of kind \<open>text\<close>, and let the ids of the extracted tool
  calls be pairwise distinct. Then \<open>handleStreamingRequest\<close> writes exactly \<open>n + 2\<close> chunks
  before the terminator: the initial role chunk, one tool-call chunk for each assistant
  message, carrying that message's tool call, and the final chunk, whose finish reason is
  \<open>tool_calls\<close> when \<open>n\<close> is positive. Messages of other kinds write nothing.
\<close>

theorem streaming_chunk_count:
  assumes "backendRun env claudePrompt sdkModel = (evs, None)"
    and "\<forall>m \<in> set evs. isAssistantMessage m \<longrightarrow> oneToolUseNoText m"
    and "calls = extractedCalls (nanoid env) 1 evs"
    and "distinct (map tc_id calls)"
    and "n = length (filter isAssistantMessage evs)"
    and "cid = ''chatcmpl-'' @ nanoid env 0"
  shows "\<exists>chunks.
           written (handleStreamingRequest env res0 claudePrompt responseModel sdkModel)
             = written res0 @ chunks @ [''data: [DONE]'' @ [CHR 0x0A, CHR 0x0A]]
         \<and> length chunks = n + 2
         \<and> length calls = n
         \<and> chunks =
             [chunkFrame (buildInitialChunk (dateNow env 0) cid responseModel)]
             @ map (\<lambda>j. chunkFrame (buildToolCallChunk (dateNow env (Suc j)) cid responseModel
                                       [calls ! j] True)) [0 ..< n]
             @ [chunkFrame (buildFinalChunk (dateNow env (Suc n)) cid responseModel (0 < n))]"
proof -
  define st0 where "st0 = \<lparr>res = sendChunk (setupSSE res0)
                         (buildInitialChunk (dateNow env 0) cid responseModel),
                 hasToolCalls = False, sentToolCallIds = {},
                 s_nanoidCalls = 1, s_clockReads = 1\<rparr>"
  define st where "st = foldl (streamMessage env cid responseModel) st0 evs"
  note h = handleStreamingRequest_eq [OF assms(1) assms(6) st0_def st_def]
  have k0: "s_nanoidCalls st0 = 1" "s_clockReads st0 = 1" "sentToolCallIds st0 = {}"
    "hasToolCalls st0 = False"
    by (simp_all add: st0_def)
  have w0: "written (res st0)
      = written res0 @ [chunkFrame (buildInitialChunk (dateNow env 0) cid responseModel)]"
    by (simp add: st0_def sendChunk_written setupSSE_written)
  have d: "distinct (map tc_id (extractedCalls (nanoid env) (s_nanoidCalls st0) evs))"
    using assms(3,4) by (simp add: k0)
  have i: "tc_id ` set (extractedCalls (nanoid env) (s_nanoidCalls st0) evs)
             \<inter> sentToolCallIds st0 = {}"
    by (simp add: k0)
  note loop = foldl_streamMessage_fresh [OF assms(2) d i, of cid responseModel,
      folded st_def, unfolded k0, folded assms(3) assms(5), unfolded map_enumerate_nth]
  from loop have len: "length calls = n" by simp
  let ?chunks = "[chunkFrame (buildInitialChunk (dateNow env 0) cid responseModel)]
             @ map (\<lambda>j. chunkFrame (buildToolCallChunk (dateNow env (Suc j)) cid responseModel
                                       [calls ! j] True)) [0 ..< n]
             @ [chunkFrame (buildFinalChunk (dateNow env (Suc n)) cid responseModel (0 < n))]"
  have fin: "hasToolCalls st = (0 < n)" "s_clockReads st = Suc n"
    using loop assms(5) by auto
  have "written (handleStreamingRequest env res0 claudePrompt responseModel sdkModel)
             = written res0 @ ?chunks @ [''data: [DONE]'' @ [CHR 0x0A, CHR 0x0A]]"
    using loop
    by (simp add: h res_end_def sendDone_written sendChunk_written w0 doneFrame_def fin len)
  moreover have "length ?chunks = n + 2" by simp
  ultimately show ?thesis using len by (intro exI [of _ ?chunks]) simp
qed

text \<open>
  The theorem at a run of two such assistant messages with a result message between them.
\<close>

theorem streaming_chunk_count_witness:
  "backendRun
       (exampleEnv ([assistantMessage [toolUseBlock (Some ''toolu_1'') ''get_weather''],
                     resultMessage None,
                     assistantMessage [contentBlock ''thinking'',
                                       toolUseBlock (Some ''toolu_2'') ''now'']], None))
       \<lparr>prompt = ''Hi'', systemPrompt = None\<rparr> (ModelName ''sonnet'')
     = ([assistantMessage [toolUseBlock (Some ''toolu_1'') ''get_weather''],
         resultMessage None,
         assistantMessage [contentBlock ''thinking'', toolUseBlock (Some ''toolu_2'') ''now'']],
        None)
   \<and> oneToolUseNoText (assistantMessage [toolUseBlock (Some ''toolu_1'') ''get_weather''])
   \<and> oneToolUseNoText
        (assistantMessage [contentBlock ''thinking'', toolUseBlock (Some ''toolu_2'') ''now''])
   \<and> \<not> isAssistantMessage (resultMessage None)
   \<and> extractedCalls decimal 1
        [assistantMessage [toolUseBlock (Some ''toolu_1'') ''get_weather''],
         resultMessage None,
         assistantMessage [contentBlock ''thinking'', toolUseBlock (Some ''toolu_2'') ''now'']]
     = [toolCall ''toolu_1'' ''get_weather'' ''{}'', toolCall ''toolu_2'' ''now'' ''{}'']
   \<and> written
        (handleStreamingRequest
           (exampleEnv ([assistantMessage [toolUseBlock (Some ''toolu_1'') ''get_weather''],
                         resultMessage None,
                         assistantMessage [contentBlock ''thinking'',
                                           toolUseBlock (Some ''toolu_2'') ''now'']], None))
           newResponse \<lparr>prompt = ''Hi'', systemPrompt = None\<rparr> ''claude-sonnet-4-5'' (ModelName ''sonnet''))
     = [chunkFrame (buildInitialChunk 0 ''chatcmpl-0'' ''claude-sonnet-4-5''),
        chunkFrame (buildToolCallChunk 1000 ''chatcmpl-0'' ''claude-sonnet-4-5''
                      [toolCall ''toolu_1'' ''get_weather'' ''{}''] True),
        chunkFrame (buildToolCallChunk 2000 ''chatcmpl-0'' ''claude-sonnet-4-5''
                      [toolCall ''toolu_2'' ''now'' ''{}''] True),
        chunkFrame (buildFinalChunk 3000 ''chatcmpl-0'' ''claude-sonnet-4-5'' True),
        ''data: [DONE]'' @ [CHR 0x0A, CHR 0x0A]]"
proof -
  let ?evs = "[assistantMessage [toolUseBlock (Some ''toolu_1'') ''get_weather''],
               resultMessage None,
               assistantMessage [contentBlock ''thinking'',
                                 toolUseBlock (Some ''toolu_2'') ''now'']]"
  let ?env = "exampleEnv (?evs, None)"
  let ?cp = "\<lparr>prompt = ''Hi'', systemPrompt = None\<rparr>"
  let ?calls = "[toolCall ''toolu_1'' ''get_weather'' ''{}'', toolCall ''toolu_2'' ''now'' ''{}'']"
  have run: "backendRun ?env ?cp (ModelName ''sonnet'') = (?evs, None)"
    by (simp add: backendRun_def queryClaudeAgent_def exampleEnv_def)
  have one: "oneToolUseNoText (assistantMessage [toolUseBlock (Some ''toolu_1'') ''get_weather''])"
    "oneToolUseNoText
       (assistantMessage [contentBlock ''thinking'', toolUseBlock (Some ''toolu_2'') ''now''])"
    "\<not> isAssistantMessage (resultMessage None)"
    by (simp_all add: oneToolUseNoText_def ex_defs isAssistantMessage_def)
  then have single: "\<forall>m \<in> set ?evs. isAssistantMessage m \<longrightarrow> oneToolUseNoText m"
    by simp
  have calls: "extractedCalls decimal 1 ?evs = ?calls"
    by (simp add: ex_defs run_defs isAssistantMessage_def toolCall_def)
  have gen: "nanoid ?env = decimal" "dateNow ?env = (\<lambda>k. 1000 * int k)"
    by (simp_all add: exampleEnv_def)
  have fresh: "distinct (map tc_id ?calls)"
    by (simp add: toolCall_def)
  have n: "Suc (Suc 0) = length (filter isAssistantMessage ?evs)"
    by (simp add: ex_defs isAssistantMessage_def)
  have cid: "''chatcmpl-0'' = ''chatcmpl-'' @ nanoid ?env 0"
    by (simp add: gen digitChar_def)
  from streaming_chunk_count
         [OF run single calls [symmetric, folded gen(1)] fresh n cid,
          of newResponse "''claude-sonnet-4-5''"]
  have "written (handleStreamingRequest ?env newResponse ?cp ''claude-sonnet-4-5'' (ModelName ''sonnet''))
     = [chunkFrame (buildInitialChunk 0 ''chatcmpl-0'' ''claude-sonnet-4-5''),
        chunkFrame (buildToolCallChunk 1000 ''chatcmpl-0'' ''claude-sonnet-4-5''
                      [toolCall ''toolu_1'' ''get_weather'' ''{}''] True),
        chunkFrame (buildToolCallChunk 2000 ''chatcmpl-0'' ''claude-sonnet-4-5''
                      [toolCall ''toolu_2'' ''now'' ''{}''] True),
        chunkFrame (buildFinalChunk 3000 ''chatcmpl-0'' ''claude-sonnet-4-5'' True),
        ''data: [DONE]'' @ [CHR 0x0A, CHR 0x0A]]"
    by (auto simp: gen newResponse_def)
  with run one calls show ?thesis by simp
qed

text \<open>
  C2 as stated fails: the run below has one assistant message, with exactly one block of
  kind \<open>tool_use\<close>, whose id is new, and no text block. The block has no tool name, so
  \<open>extractContent\<close> skips it, and two chunks are written before the terminator, not three.
\<close>

theorem streaming_unnamed_tool_use_chunks:
  "length (filter isAssistantMessage
             [assistantMessage [(contentBlock ''tool_use'')\<lparr>block_id := Some ''toolu_1''\<rparr>]]) = 1
   \<and> written
        (handleStreamingRequest
           (exampleEnv ([assistantMessage
                           [(contentBlock ''tool_use'')\<lparr>block_id := Some ''toolu_1''\<rparr>]], None))
           newResponse \<lparr>prompt = ''Hi'', systemPrompt = None\<rparr> ''claude-sonnet-4-5'' (ModelName ''sonnet''))
     = [chunkFrame (buildInitialChunk 0 ''chatcmpl-0'' ''claude-sonnet-4-5''),
        chunkFrame (buildFinalChunk 1000 ''chatcmpl-0'' ''claude-sonnet-4-5'' False),
        ''data: [DONE]'' @ [CHR 0x0A, CHR 0x0A]]"
  by (simp add: stream_defs ex_defs run_defs Let_def)

section \<open>Prompt flattening and request validation\<close>

lemma foldl_splitMessage_conversation:
  "snd (foldl splitMessage (sys, conv) msgs) = conv @ filter (\<lambda>m. role m \<noteq> ''system'') msgs"
  by (induction msgs arbitrary: sys conv) (simp_all add: splitMessage_def Let_def)

lemma convertOpenAIToClaude_eq:
  assumes "messages request \<noteq> []"
    and "conv = filter (\<lambda>m. role m \<noteq> ''system'') (messages request)"
  shows "convertOpenAIToClaude request =
     Inr \<lparr>prompt = (if length conv = 1 \<and> role (conv ! 0) = ''user''
                     then getTextContent (content (conv ! 0))
                     else formatConversation conv),
          systemPrompt = fst (foldl splitMessage (None, []) (messages request))\<rparr>"
proof -
  obtain sys c where f: "foldl splitMessage (None, []) (messages request) = (sys, c)"
    by (cases "foldl splitMessage (None, []) (messages request)")
  with foldl_splitMessage_conversation [of None "[]" "messages request"]
  have "c = conv" by (simp add: assms(2))
  with f assms(1) show ?thesis
    by (simp add: convertOpenAIToClaude_def)
qed

lemma findLastIndexFrom_none:
  "\<forall>i < n. \<not> P (arr ! i) \<Longrightarrow> findLastIndexFrom arr P n = - 1"
  by (induction n) simp_all

lemma findLastIndexFrom_some:
  "\<exists>i < n. P (arr ! i) \<Longrightarrow>
     \<exists>i < n. findLastIndexFrom arr P n = int i \<and> P (arr ! i)
          \<and> (\<forall>j. i < j \<and> j < n \<longrightarrow> \<not> P (arr ! j))"
proof (induction n)
  case 0
  then show ?case by simp
next
  case (Suc n)
  show ?case
  proof (cases "P (arr ! n)")
    case True
    then show ?thesis by (intro exI [of _ n]) auto
  next
    case False
    with Suc.prems have "\<exists>i < n. P (arr ! i)"
      by (metis less_Suc_eq)
    from Suc.IH [OF this] obtain i where i: "i < n" "findLastIndexFrom arr P n = int i"
      "P (arr ! i)" "\<forall>j. i < j \<and> j < n \<longrightarrow> \<not> P (arr ! j)"
      by blast
    with False show ?thesis
      by (intro exI [of _ i]) (auto simp: less_Suc_eq)
  qed
qed

lemma last_filter_nth:
  assumes "i < length arr" "P (arr ! i)" "\<forall>j. i < j \<and> j < length arr \<longrightarrow> \<not> P (arr ! j)"
  shows "last (filter P arr) = arr ! i"
proof -
  have "\<forall>x \<in> set (drop (Suc i) arr). \<not> P x"
    using assms(3) by (auto simp: in_set_conv_nth)
  then have "filter P (drop (Suc i) arr) = []"
    by (simp add: filter_empty_conv)
  moreover have "arr = take i arr @ arr ! i # drop (Suc i) arr"
    using assms(1) by (rule id_take_nth_drop)
  ultimately have "filter P arr = filter P (take i arr) @ [arr ! i]"
    using assms(2) by (metis filter.simps(2) filter_append)
  then show ?thesis by simp
qed

lemma join_append:
  "xs \<noteq> [] \<Longrightarrow> ys \<noteq> [] \<Longrightarrow> join sep (xs @ ys) = join sep xs @ sep @ join sep ys"
proof (induction sep xs rule: join.induct)
  case (1 sep)
  then show ?case by simp
next
  case (2 sep x)
  then show ?case by (cases ys) simp_all
next
  case (3 sep x y ys')
  then show ?case by simp
qed

lemma join_ends:
  "\<exists>pre. join sep (ps @ [a, b]) = pre @ a @ sep @ b"
proof (cases "ps = []")
  case True
  then show ?thesis by simp
next
  case False
  then have "join sep (ps @ [a, b]) = (join sep ps @ sep) @ a @ sep @ b"
    by (simp add: join_append)
  then show ?thesis by blast
qed

lemma formatConversation_current:
  assumes "length conv > 1" and "\<exists>m \<in> set conv. role m = ''user''"
  shows "\<exists>pre. formatConversation conv =
           pre @ ''Current request:'' @ LF
             @ getTextContent (content (last (filter (\<lambda>m. role m = ''user'') conv)))"
proof -
  from assms(2) have "\<exists>i < length conv. role (conv ! i) = ''user''"
    by (auto simp: in_set_conv_nth)
  from findLastIndexFrom_some [of "length conv" "\<lambda>m. role m = ''user''" conv, OF this]
  obtain i where i: "i < length conv" "findLastIndex conv (\<lambda>m. role m = ''user'') = int i"
    "role (conv ! i) = ''user''"
    "\<forall>j. i < j \<and> j < length conv \<longrightarrow> role (conv ! j) \<noteq> ''user''"
    unfolding findLastIndex_def by blast
  have cur: "last (filter (\<lambda>m. role m = ''user'') conv) = conv ! i"
    using i(1,3,4) by (rule last_filter_nth)
  define ps where "ps =
      (if 0 < length (take i conv)
       then [''Previous conversation:'', join (LF @ LF) (map formatMessage (take i conv)), []]
       else [])
      @ (if 0 < length (drop (i + 1) conv)
         then [join (LF @ LF) (map formatMessage (drop (i + 1) conv)), []]
         else [])"
  have "formatConversation conv =
      join LF (ps @ [''Current request:'', getTextContent (content (conv ! i))])"
    using assms(1) i(2) by (auto simp add: formatConversation_def Let_def ps_def)
  with join_ends [of LF ps "''Current request:''" "getTextContent (content (conv ! i))"]
  show ?thesis unfolding cur by auto
qed


lemma messageObject_role: "getProp ''role'' (messageObject m) = Some (JStr (role m))"
  by (simp add: messageObject_def)

lemma messageObject_content:
  "getProp ''content'' (messageObject m) = Some (contentValue (content m))"
  by (simp add: messageObject_def)

lemma contentAccepted_typed: "contentAccepted (Some (contentValue c))"
  by (cases c) (simp_all add: contentValue_def)

lemma validateMessages_typed:
  "\<forall>m \<in> set ms. role m \<in> set validRoles \<Longrightarrow> validateMessages i (map messageObject ms) = None"
proof (induction ms arbitrary: i)
  case Nil
  show ?case by simp
next
  case (Cons m ms)
  have "isObjectLike (Some (messageObject m))"
    by (simp add: messageObject_def)
  with Cons show ?case
    by (simp add: messageObject_role messageObject_content contentAccepted_typed)
qed

lemma requestObject_messages:
  "getProp ''messages'' (requestObject r) = Some (JArr (map messageObject (messages r)))"
  by (simp add: requestObject_def optional_def split: option.splits)

lemma requestObject_objectLike: "isObjectLike (Some (requestObject r))"
  by (simp add: requestObject_def)

lemma validateRequest_typed:
  "validateRequest (Some (requestObject r)) =
     (if messages r = [] then Inl (ValidationError ''messages array cannot be empty'')
      else case validateMessages 0 (map messageObject (messages r)) of
             Some error \<Rightarrow> Inl error
           | None \<Rightarrow> Inr (requestObject r))"
  by (simp add: validateRequest_def requestObject_objectLike requestObject_messages
      split: option.splits)

lemmas prompt_defs = convertOpenAIToClaude_def splitMessage_def formatConversation_def
  formatMessage_def getRoleLabel_def getTextContent_def findLastIndex_def chatRequest_def
  plainMessage_def truthy_def LF_def

text \<open>
  C4, as the code has it. When the messages that are not system messages number more
  than one and at least one of them has the role \<open>user\<close>, the prompt ends with the marker
  \<open>Current request:\<close>, a line feed, and the extracted text of the last message with the
  role \<open>user\<close>.
\<close>

theorem current_request_marker:
  assumes "conv = filter (\<lambda>m. role m \<noteq> ''system'') (messages request)"
    and "length conv > 1"
    and "\<exists>m \<in> set conv. role m = ''user''"
  shows "\<exists>pre sys.
           convertOpenAIToClaude request =
             Inr \<lparr>prompt = pre @ ''Current request:'' @ [CHR 0x0A]
                      @ getTextContent (content (last (filter (\<lambda>m. role m = ''user'') conv))),
                  systemPrompt = sys\<rparr>"
proof -
  from assms(1,2) have ne: "messages request \<noteq> []" by auto
  from formatConversation_current [OF assms(2,3)] obtain pre where
    "formatConversation conv =
       pre @ ''Current request:'' @ LF
         @ getTextContent (content (last (filter (\<lambda>m. role m = ''user'') conv)))"
    by blast
  with convertOpenAIToClaude_eq [OF ne assms(1)] assms(2) show ?thesis
    by (simp add: LF_def)
qed

text \<open>
  The theorem at a system message followed by a user, an assistant and a user message.
\<close>

theorem current_request_marker_witness:
  "filter (\<lambda>m. role m \<noteq> ''system'')
       (messages (chatRequest [plainMessage ''system'' (ContentString ''Be brief''),
                               plainMessage ''user'' (ContentString ''a''),
                               plainMessage ''assistant'' (ContentString ''b''),
                               plainMessage ''user'' (ContentString ''c'')]))
     = [plainMessage ''user'' (ContentString ''a''),
        plainMessage ''assistant'' (ContentString ''b''),
        plainMessage ''user'' (ContentString ''c'')]
   \<and> role (plainMessage ''user'' (ContentString ''c'')) = ''user''
   \<and> convertOpenAIToClaude
        (chatRequest [plainMessage ''system'' (ContentString ''Be brief''),
                      plainMessage ''user'' (ContentString ''a''),
                      plainMessage ''assistant'' (ContentString ''b''),
                      plainMessage ''user'' (ContentString ''c'')])
     = Inr \<lparr>prompt = ''Previous conversation:'' @ [CHR 0x0A] @ ''User: a'' @ [CHR 0x0A, CHR 0x0A]
                      @ ''Assistant: b'' @ [CHR 0x0A, CHR 0x0A]
                      @ ''Current request:'' @ [CHR 0x0A] @ ''c'',
            systemPrompt = Some ''Be brief''\<rparr>
   \<and> (\<exists>pre sys.
         convertOpenAIToClaude
           (chatRequest [plainMessage ''system'' (ContentString ''Be brief''),
                         plainMessage ''user'' (ContentString ''a''),
                         plainMessage ''assistant'' (ContentString ''b''),
                         plainMessage ''user'' (ContentString ''c'')])
         = Inr \<lparr>prompt = pre @ ''Current request:'' @ [CHR 0x0A] @ ''c'', systemPrompt = sys\<rparr>)"
proof -
  let ?req = "chatRequest [plainMessage ''system'' (ContentString ''Be brief''),
                           plainMessage ''user'' (ContentString ''a''),
                           plainMessage ''assistant'' (ContentString ''b''),
                           plainMessage ''user'' (ContentString ''c'')]"
  let ?conv = "[plainMessage ''user'' (ContentString ''a''),
                plainMessage ''assistant'' (ContentString ''b''),
                plainMessage ''user'' (ContentString ''c'')]"
  have conv: "?conv = filter (\<lambda>m. role m \<noteq> ''system'') (messages ?req)"
    by (simp add: chatRequest_def plainMessage_def)
  have len: "length ?conv > 1" by simp
  have user: "\<exists>m \<in> set ?conv. role m = ''user''"
    by (simp add: plainMessage_def)
  from current_request_marker [OF conv len user]
  have "\<exists>pre sys. convertOpenAIToClaude ?req
         = Inr \<lparr>prompt = pre @ ''Current request:'' @ [CHR 0x0A] @ ''c'', systemPrompt = sys\<rparr>"
    by (simp add: plainMessage_def getTextContent_def)
  moreover have "convertOpenAIToClaude ?req
     = Inr \<lparr>prompt = ''Previous conversation:'' @ [CHR 0x0A] @ ''User: a'' @ [CHR 0x0A, CHR 0x0A]
                      @ ''Assistant: b'' @ [CHR 0x0A, CHR 0x0A]
                      @ ''Current request:'' @ [CHR 0x0A] @ ''c'',
            systemPrompt = Some ''Be brief''\<rparr>"
    by (simp add: prompt_defs Let_def numeral_3_eq_3)
  ultimately show ?thesis using conv by (simp add: plainMessage_def)
qed

text \<open>
  C4 as stated fails: the two messages below are not system messages, and none has the
  role \<open>user\<close>. \<open>formatConversation\<close> then formats both as history, and the prompt does
  not contain the marker \<open>Current request:\<close>.
\<close>

theorem no_user_message_no_marker:
  "length (filter (\<lambda>m. role m \<noteq> ''system'')
             (messages (chatRequest [plainMessage ''assistant'' (ContentString ''a''),
                                     plainMessage ''assistant'' (ContentString ''b'')]))) = 2
   \<and> convertOpenAIToClaude
        (chatRequest [plainMessage ''assistant'' (ContentString ''a''),
                      plainMessage ''assistant'' (ContentString ''b'')])
     = Inr \<lparr>prompt = ''Assistant: a'' @ [CHR 0x0A, CHR 0x0A] @ ''Assistant: b'',
            systemPrompt = None\<rparr>
   \<and> \<not> sublist ''Current request:''
         (''Assistant: a'' @ [CHR 0x0A, CHR 0x0A] @ ''Assistant: b'')"
  by (simp add: prompt_defs Let_def numeral_2_eq_2 sublist_Cons_right)

text \<open>
  C5, as the code has it. When exactly one message is not a system message, the prompt is
  the extracted text of that message as it is, whatever its role: no role label is put in
  front of it, and its tool calls and tool-call id are not rendered.
\<close>

theorem single_message_verbatim:
  assumes "filter (\<lambda>m. role m \<noteq> ''system'') (messages request) = [m]"
  shows "\<exists>sys. convertOpenAIToClaude request =
           Inr \<lparr>prompt = getTextContent (content m), systemPrompt = sys\<rparr>"
proof -
  from assms have ne: "messages request \<noteq> []" by auto
  from convertOpenAIToClaude_eq [OF ne assms [symmetric]] show ?thesis
    by (simp add: formatConversation_def)
qed

text \<open>
  The theorem at a system message followed by one assistant message that carries a tool
  call.
\<close>

theorem single_message_verbatim_witness:
  "filter (\<lambda>m. role m \<noteq> ''system'')
       (messages (chatRequest [plainMessage ''system'' (ContentString ''Be brief''),
                               (plainMessage ''assistant'' (ContentString ''Hello''))
                                  \<lparr>tool_calls := Some [toolCall ''call_1'' ''now'' ''{}'']\<rparr>]))
     = [(plainMessage ''assistant'' (ContentString ''Hello''))
          \<lparr>tool_calls := Some [toolCall ''call_1'' ''now'' ''{}'']\<rparr>]
   \<and> convertOpenAIToClaude
        (chatRequest [plainMessage ''system'' (ContentString ''Be brief''),
                      (plainMessage ''assistant'' (ContentString ''Hello''))
                         \<lparr>tool_calls := Some [toolCall ''call_1'' ''now'' ''{}'']\<rparr>])
     = Inr \<lparr>prompt = ''Hello'', systemPrompt = Some ''Be brief''\<rparr>"
proof -
  let ?m = "(plainMessage ''assistant'' (ContentString ''Hello''))
              \<lparr>tool_calls := Some [toolCall ''call_1'' ''now'' ''{}'']\<rparr>"
  let ?req = "chatRequest [plainMessage ''system'' (ContentString ''Be brief''), ?m]"
  have conv: "filter (\<lambda>m. role m \<noteq> ''system'') (messages ?req) = [?m]"
    by (simp add: chatRequest_def plainMessage_def)
  from single_message_verbatim [OF conv] obtain sys where
    "convertOpenAIToClaude ?req = Inr \<lparr>prompt = getTextContent (content ?m), systemPrompt = sys\<rparr>"
    by blast
  moreover have "fst (foldl splitMessage (None, []) (messages ?req)) = Some ''Be brief''"
    by (simp add: prompt_defs)
  moreover have "convertOpenAIToClaude ?req =
      Inr \<lparr>prompt = getTextContent (content ?m),
           systemPrompt = fst (foldl splitMessage (None, []) (messages ?req))\<rparr>"
    using convertOpenAIToClaude_eq [of ?req, OF _ conv [symmetric]]
    by (simp add: chatRequest_def plainMessage_def formatConversation_def)
  ultimately show ?thesis using conv
    by (simp add: plainMessage_def getTextContent_def)
qed

text \<open>
  C5 as stated fails: for a single assistant message with the text \<open>Hello\<close> the prompt is
  \<open>Hello\<close>, while the history formatting of that message is \<open>Assistant: Hello\<close>.
\<close>

theorem single_assistant_message_unlabelled:
  "filter (\<lambda>m. role m \<noteq> ''system'')
       (messages (chatRequest [plainMessage ''assistant'' (ContentString ''Hello'')]))
     = [plainMessage ''assistant'' (ContentString ''Hello'')]
   \<and> convertOpenAIToClaude (chatRequest [plainMessage ''assistant'' (ContentString ''Hello'')])
     = Inr \<lparr>prompt = ''Hello'', systemPrompt = None\<rparr>
   \<and> formatMessage (plainMessage ''assistant'' (ContentString ''Hello'')) = ''Assistant: Hello''"
  by (simp add: prompt_defs Let_def)

text \<open>
  C6, as the code has it. For a request without messages \<open>convertOpenAIToClaude\<close> fails,
  and what it throws is a plain \<open>Error\<close>, which the error handler reports with status 500
  and the type \<open>internal_error\<close>. The rejection with status 400 and the type
  \<open>invalid_request_error\<close> is made by \<open>validateRequest\<close>, which the route runs first, so
  that the route answers such a request with status 400 before the conversion is reached.
\<close>

theorem empty_messages_rejected:
  assumes "messages request = []"
  shows "convertOpenAIToClaude request =
           Inl (JsError ''Messages array is required and cannot be empty'')
       \<and> errorHandler (JsError ''Messages array is required and cannot be empty'') =
           (500, JObj [(''error'',
                        JObj [(''message'', JStr ''An internal error occurred''),
                              (''type'', JStr ''internal_error''),
                              (''param'', JNull),
                              (''code'', JStr ''internal_error'')])])
       \<and> validateRequest (Some (requestObject request)) =
           Inl (ValidationError ''messages array cannot be empty'')
       \<and> chatCompletions env request =
           JsonResult 400
             (JObj [(''error'',
                     JObj [(''message'', JStr ''messages array cannot be empty''),
                           (''type'', JStr ''invalid_request_error''),
                           (''param'', JNull),
                           (''code'', JStr ''invalid_request_error'')])])"
  using assms
  by (simp add: convertOpenAIToClaude_def validateRequest_typed chatCompletions_def
      nextError_def ValidationError_def)

text \<open>The theorem at the request with an empty message list.\<close>

theorem empty_messages_rejected_witness:
  "messages (chatRequest []) = []
   \<and> convertOpenAIToClaude (chatRequest []) =
       Inl (JsError ''Messages array is required and cannot be empty'')
   \<and> validateRequest (Some (requestObject (chatRequest []))) =
       Inl (ValidationError ''messages array cannot be empty'')
   \<and> chatCompletions (exampleEnv ([], None)) (chatRequest []) =
       JsonResult 400
         (JObj [(''error'',
                 JObj [(''message'', JStr ''messages array cannot be empty''),
                       (''type'', JStr ''invalid_request_error''),
                       (''param'', JNull),
                       (''code'', JStr ''invalid_request_error'')])])"
proof -
  have e: "messages (chatRequest []) = []"
    by (simp add: chatRequest_def)
  from empty_messages_rejected [OF e, of "exampleEnv ([], None)"] e show ?thesis
    by simp
qed

text \<open>
  C6 as stated fails: on the empty message list \<open>convertOpenAIToClaude\<close> throws a plain
  \<open>Error\<close>, not a \<open>ValidationError\<close>, and the error handler maps it to status 500 with the
  type \<open>internal_error\<close>.
\<close>

theorem empty_messages_generic_error:
  "convertOpenAIToClaude (chatRequest []) =
       Inl (JsError ''Messages array is required and cannot be empty'')
   \<and> JsError ''Messages array is required and cannot be empty''
       \<noteq> ValidationError ''Messages array is required and cannot be empty''
   \<and> errorHandler (JsError ''Messages array is required and cannot be empty'') =
       (500, JObj [(''error'',
                    JObj [(''message'', JStr ''An internal error occurred''),
                          (''type'', JStr ''internal_error''),
                          (''param'', JNull),
                          (''code'', JStr ''internal_error'')])])"
  by (simp add: convertOpenAIToClaude_def chatRequest_def ValidationError_def)

lemma lookupModel_truthy:
  "modelTruthy (case lookupModel n of
                  None \<Rightarrow> ModelName ''sonnet''
                | Some m \<Rightarrow> if modelTruthy m then m else ModelName ''sonnet'')"
  by (cases "lookupModel n") simp_all

lemma backendRun_empty_prompt:
  assumes "modelTruthy sdkModel"
  shows "backendRun env \<lparr>prompt = [], systemPrompt = None\<rparr> sdkModel =
     sdkQuery env []
       \<lparr>q_allowedTools = allowedTools (config env),
        q_permissionMode = mapPermissionMode (permissionMode (config env)),
        q_maxTurns = (if noToolExecution (config env) then 1 else maxTurns (config env)),
        q_cwd = workingDir (config env),
        q_systemPrompt = None,
        q_model = Some sdkModel,
        q_canUseTool =
          (if noToolExecution (config env)
           then Some \<lparr>behavior = ''deny'',
                  decision_message =
                    ''Tool execution disabled - returning tool call to client''\<rparr>
           else None)\<rparr>"
  using assms by (simp add: backendRun_def queryClaudeAgent_def Let_def truthy_def)

lemma handleNonStreamingRequest_loop:
  assumes "backendRun env claudePrompt sdkModel = (evs, fin)"
    and "st = foldl (collectMessage env)
                \<lparr>collectedContent = [], collectedToolCalls = [],
                 usage = \<lparr>prompt_tokens = 0, completion_tokens = 0, total_tokens = 0\<rparr>,
                 seenToolCallIds = {}, c_nanoidCalls = 1\<rparr> evs"
  shows "handleNonStreamingRequest env claudePrompt responseModel sdkModel =
     (case fin of
        Some error \<Rightarrow> Inl error
      | None \<Rightarrow>
          Inr (buildChatCompletion (dateNow env 0) (''chatcmpl-'' @ nanoid env 0) responseModel
                 (if length (collectedContent st) > 0
                  then Some (join (LF @ LF) (collectedContent st)) else None)
                 (collectedToolCalls st) (usage st)))"
  using assms(1)
  by (simp add: handleNonStreamingRequest_def backendRun_def generateCompletionId_def
      Let_def assms(2) split: option.splits)

text \<open>
  C10. For a request whose only message has the role \<open>user\<close> and the content \<open>null\<close>, the
  body has \<open>null\<close> as that message's content, \<open>validateRequest\<close> accepts the body, and
  \<open>convertOpenAIToClaude\<close> succeeds with the empty string as prompt and no system prompt.
  The route does not reject the request: what it answers is made from the run that the
  SDK's \<open>query\<close> returns for the empty prompt (with the options \<open>queryClaudeAgent\<close>
  builds), by the loop of the streaming handler when the request asks for a stream and by
  the loop of the non-streaming handler otherwise.
\<close>

theorem null_content_user_message:
  assumes "messages request = [m]" and "role m = ''user''" and "content m = ContentNull"
    and "responseModel =
           (if truthy (model request) then the (model request) else ''claude-sonnet-4-5'')"
    and "sdkModel = (case lookupModel responseModel of
                       None \<Rightarrow> ModelName ''sonnet''
                     | Some v \<Rightarrow> if modelTruthy v then v else ModelName ''sonnet'')"
    and "queryOptions =
           \<lparr>q_allowedTools = allowedTools (config env),
            q_permissionMode = mapPermissionMode (permissionMode (config env)),
            q_maxTurns = (if noToolExecution (config env) then 1 else maxTurns (config env)),
            q_cwd = workingDir (config env),
            q_systemPrompt = None,
            q_model = Some sdkModel,
            q_canUseTool =
              (if noToolExecution (config env)
               then Some \<lparr>behavior = ''deny'',
                      decision_message =
                        ''Tool execution disabled - returning tool call to client''\<rparr>
               else None)\<rparr>"
    and "sdkQuery env [] queryOptions = (evs, fin)"
    and "cid = ''chatcmpl-'' @ nanoid env 0"
    and "streamed = foldl (streamMessage env cid responseModel)
                      \<lparr>res = sendChunk (setupSSE newResponse)
                               (buildInitialChunk (dateNow env 0) cid responseModel),
                       hasToolCalls = False, sentToolCallIds = {},
                       s_nanoidCalls = 1, s_clockReads = 1\<rparr> evs"
    and "collected = foldl (collectMessage env)
                       \<lparr>collectedContent = [], collectedToolCalls = [],
                        usage = \<lparr>prompt_tokens = 0, completion_tokens = 0, total_tokens = 0\<rparr>,
                        seenToolCallIds = {}, c_nanoidCalls = 1\<rparr> evs"
  shows "getProp ''content'' (messageObject m) = Some JNull
       \<and> validateRequest (Some (requestObject request)) = Inr (requestObject request)
       \<and> convertOpenAIToClaude request = Inr \<lparr>prompt = [], systemPrompt = None\<rparr>
       \<and> chatCompletions env request =
           (if stream request = Some True
            then StreamResult
                   (res_end
                      (case fin of
                         None \<Rightarrow>
                           sendDone (sendChunk (res streamed)
                             (buildFinalChunk (dateNow env (s_clockReads streamed)) cid
                                responseModel (hasToolCalls streamed)))
                       | Some error \<Rightarrow>
                           sendDone (sendError (res streamed)
                             (if instanceofError error then errorMessage error
                              else ''Stream error''))))
            else (case fin of
                    Some error \<Rightarrow> nextError error
                  | None \<Rightarrow>
                      JsonResult 200
                        (buildChatCompletion (dateNow env 0) cid responseModel
                           (if length (collectedContent collected) > 0
                            then Some (join (LF @ LF) (collectedContent collected)) else None)
                           (collectedToolCalls collected) (usage collected))))"
proof -
  have "validateMessages 0 (map messageObject (messages request)) = None"
    by (rule validateMessages_typed) (simp add: assms(1,2) validRoles_def)
  then have v: "validateRequest (Some (requestObject request)) = Inr (requestObject request)"
    unfolding validateRequest_typed by (simp add: assms(1))
  have c: "convertOpenAIToClaude request = Inr \<lparr>prompt = [], systemPrompt = None\<rparr>"
    using assms(1,2,3)
    by (simp add: convertOpenAIToClaude_def splitMessage_def getTextContent_def)
  have "modelTruthy sdkModel"
    unfolding assms(5) by (rule lookupModel_truthy)
  from backendRun_empty_prompt [OF this, of env]
  have run: "backendRun env \<lparr>prompt = [], systemPrompt = None\<rparr> sdkModel = (evs, fin)"
    by (simp add: assms(6) [symmetric] assms(7))
  note s = handleStreamingRequest_eq [OF run assms(8) refl assms(9)]
  note n = handleNonStreamingRequest_loop [OF run assms(10), of responseModel, folded assms(8)]
  have route: "chatCompletions env request =
           (if stream request = Some True
            then StreamResult
                   (handleStreamingRequest env newResponse \<lparr>prompt = [], systemPrompt = None\<rparr>
                      responseModel sdkModel)
            else case handleNonStreamingRequest env \<lparr>prompt = [], systemPrompt = None\<rparr>
                        responseModel sdkModel of
                   Inl error \<Rightarrow> nextError error
                 | Inr completion \<Rightarrow> JsonResult 200 completion)"
    by (simp add: chatCompletions_def v c Let_def assms(4,5))
  have "getProp ''content'' (messageObject m) = Some JNull"
    by (simp add: messageObject_content assms(3) contentValue_def)
  moreover have "chatCompletions env request =
           (if stream request = Some True
            then StreamResult
                   (res_end
                      (case fin of
                         None \<Rightarrow>
                           sendDone (sendChunk (res streamed)
                             (buildFinalChunk (dateNow env (s_clockReads streamed)) cid
                                responseModel (hasToolCalls streamed)))
                       | Some error \<Rightarrow>
                           sendDone (sendError (res streamed)
                             (if instanceofError error then errorMessage error
                              else ''Stream error''))))
            else (case fin of
                    Some error \<Rightarrow> nextError error
                  | None \<Rightarrow>
                      JsonResult 200
                        (buildChatCompletion (dateNow env 0) cid responseModel
                           (if length (collectedContent collected) > 0
                            then Some (join (LF @ LF) (collectedContent collected)) else None)
                           (collectedToolCalls collected) (usage collected))))"
    unfolding route s n by (simp split: option.splits)
  ultimately show ?thesis using v c by simp
qed

text \<open>
  The theorem at such a request, once not streaming and once streaming, with a backend that
  answers \<open>Hello\<close> to the empty prompt and throws for every other prompt.
\<close>

theorem null_content_user_message_witness:
  "messages (chatRequest [plainMessage ''user'' ContentNull]) = [plainMessage ''user'' ContentNull]
   \<and> role (plainMessage ''user'' ContentNull) = ''user''
   \<and> content (plainMessage ''user'' ContentNull) = ContentNull
   \<and> requestObject (chatRequest [plainMessage ''user'' ContentNull])
     = JObj [(''messages'', JArr [JObj [(''role'', JStr ''user''), (''content'', JNull)]])]
   \<and> validateRequest (Some (requestObject (chatRequest [plainMessage ''user'' ContentNull])))
     = Inr (requestObject (chatRequest [plainMessage ''user'' ContentNull]))
   \<and> convertOpenAIToClaude (chatRequest [plainMessage ''user'' ContentNull])
     = Inr \<lparr>prompt = [], systemPrompt = None\<rparr>
   \<and> chatCompletions
        ((exampleEnv ([], None))
           \<lparr>sdkQuery := (\<lambda>p q. if p = [] then ([assistantMessage [textBlock ''Hello'']], None)
                                else ([], Some (JsError ''the prompt is not empty'')))\<rparr>)
        (chatRequest [plainMessage ''user'' ContentNull])
     = JsonResult 200
         (buildChatCompletion 0 ''chatcmpl-0'' ''claude-sonnet-4-5'' (Some ''Hello'') []
            \<lparr>prompt_tokens = 0, completion_tokens = 0, total_tokens = 0\<rparr>)
   \<and> chatCompletions
        ((exampleEnv ([], None))
           \<lparr>sdkQuery := (\<lambda>p q. if p = [] then ([assistantMessage [textBlock ''Hello'']], None)
                                else ([], Some (JsError ''the prompt is not empty'')))\<rparr>)
        ((chatRequest [plainMessage ''user'' ContentNull])\<lparr>stream := Some True\<rparr>)
     = StreamResult
         (res_end (sendDone (sendChunk (sendChunk (sendChunk (setupSSE newResponse)
            (buildInitialChunk 0 ''chatcmpl-0'' ''claude-sonnet-4-5''))
            (buildContentChunk 1000 ''chatcmpl-0'' ''claude-sonnet-4-5'' ''Hello''))
            (buildFinalChunk 2000 ''chatcmpl-0'' ''claude-sonnet-4-5'' False))))"
proof -
  let ?m = "plainMessage ''user'' ContentNull"
  let ?req = "chatRequest [?m]"
  let ?sreq = "(chatRequest [?m])\<lparr>stream := Some True\<rparr>"
  let ?env = "(exampleEnv ([], None))
           \<lparr>sdkQuery := (\<lambda>p q. if p = [] then ([assistantMessage [textBlock ''Hello'']], None)
                                else ([], Some (JsError ''the prompt is not empty'')))\<rparr>"
  have h: "messages ?req = [?m]" "role ?m = ''user''" "content ?m = ContentNull"
    by (simp_all add: chatRequest_def plainMessage_def)
  have hs: "messages ?sreq = [?m]"
    by (simp add: chatRequest_def)
  have rm: "''claude-sonnet-4-5'' =
      (if truthy (model ?req) then the (model ?req) else ''claude-sonnet-4-5'')"
    by (simp add: chatRequest_def truthy_def)
  have rms: "''claude-sonnet-4-5'' =
      (if truthy (model ?sreq) then the (model ?sreq) else ''claude-sonnet-4-5'')"
    by (simp add: chatRequest_def truthy_def)
  have sm: "ModelName ''sonnet'' =
      (case lookupModel ''claude-sonnet-4-5'' of
         None \<Rightarrow> ModelName ''sonnet''
       | Some v \<Rightarrow> if modelTruthy v then v else ModelName ''sonnet'')"
    by (simp add: lookupModel_def MODEL_MAP_def)
  have q: "sdkQuery ?env [] opts = ([assistantMessage [textBlock ''Hello'']], None)" for opts
    by simp
  have cid: "''chatcmpl-0'' = ''chatcmpl-'' @ nanoid ?env 0"
    by (simp add: exampleEnv_def digitChar_def)
  note t = null_content_user_message [OF h rm sm refl q cid refl refl]
  note ts = null_content_user_message [OF hs h(2,3) rms sm refl q cid refl refl]
  have obj: "requestObject ?req
     = JObj [(''messages'', JArr [JObj [(''role'', JStr ''user''), (''content'', JNull)]])]"
    by (simp add: requestObject_def messageObject_def contentValue_def optional_def
        chatRequest_def plainMessage_def)
  have plain: "chatCompletions ?env ?req
     = JsonResult 200
         (buildChatCompletion 0 ''chatcmpl-0'' ''claude-sonnet-4-5'' (Some ''Hello'') []
            \<lparr>prompt_tokens = 0, completion_tokens = 0, total_tokens = 0\<rparr>)"
    using t
    by (simp add: chatRequest_def collectMessage_def isAssistantMessage_def isResultMessage_def
        exampleEnv_def ex_defs run_defs Let_def)
  have streamed: "chatCompletions ?env ?sreq
     = StreamResult
         (res_end (sendDone (sendChunk (sendChunk (sendChunk (setupSSE newResponse)
            (buildInitialChunk 0 ''chatcmpl-0'' ''claude-sonnet-4-5''))
            (buildContentChunk 1000 ''chatcmpl-0'' ''claude-sonnet-4-5'' ''Hello''))
            (buildFinalChunk 2000 ''chatcmpl-0'' ''claude-sonnet-4-5'' False))))"
    using ts
    by (simp add: streamMessage_def isAssistantMessage_def exampleEnv_def ex_defs run_defs
        Let_def)
  from t h obj plain streamed show ?thesis by simp
qed

end
